theory Spec2Isabelle
  imports Main
begin

section \<open>JavaScript string and number primitives used by the sources\<close>

text \<open>
  Strings are \<^typ>\<open>string\<close> (lists of 8-bit characters); the version tags, platform and
  architecture names handled by the code are ASCII. A JavaScript number that results from
  \<open>parseInt\<close> is an \<^typ>\<open>int option\<close>, with \<open>None\<close> for \<open>NaN\<close>: every comparison
  with \<open>NaN\<close> is false.
\<close>

definition startsWith :: "string \<Rightarrow> string \<Rightarrow> bool" where
  \<comment> \<open>\<open>s.startsWith(p)\<close>; also the test \<open>/^node/.test(s)\<close> for \<open>p = ''node''\<close>.\<close>
  "startsWith s p = (take (length p) s = p)"

fun replaceFirst :: "string \<Rightarrow> string \<Rightarrow> string \<Rightarrow> string" where
  \<comment> \<open>\<open>s.replace(pat, rep)\<close> with a string pattern: only the first occurrence is replaced.\<close>
  "replaceFirst pat rep [] = (if pat = [] then rep else [])"
| "replaceFirst pat rep (c # cs) =
     (if startsWith (c # cs) pat then rep @ drop (length pat) (c # cs)
      else c # replaceFirst pat rep cs)"

fun includesStr :: "string \<Rightarrow> string \<Rightarrow> bool" where
  \<comment> \<open>\<open>s.includes(pat)\<close>: \<open>pat\<close> occurs somewhere in \<open>s\<close>.\<close>
  "includesStr [] pat = (pat = [])"
| "includesStr (c # cs) pat = (startsWith (c # cs) pat \<or> includesStr cs pat)"

definition isWhiteSpace :: "char \<Rightarrow> bool" where
  "isWhiteSpace c = (c = CHR 0x09 \<or> c = CHR 0x0A \<or> c = CHR 0x0B \<or> c = CHR 0x0C
                      \<or> c = CHR 0x0D \<or> c = CHR 0x20)"

definition isDigit :: "char \<Rightarrow> bool" where
  "isDigit c = (48 \<le> (of_char c :: nat) \<and> (of_char c :: nat) \<le> 57)"

fun digitsValue :: "nat \<Rightarrow> string \<Rightarrow> nat" where
  "digitsValue acc [] = acc"
| "digitsValue acc (c # cs) = digitsValue (10 * acc + ((of_char c :: nat) - 48)) cs"

definition parseInt10 :: "string \<Rightarrow> int option" where
  \<comment> \<open>\<open>parseInt(s, 10)\<close>: leading white space is skipped, one sign is accepted, the longest
      run of decimal digits is read; no digit at all gives \<open>NaN\<close>.\<close>
  "parseInt10 s =
     (let t = dropWhile isWhiteSpace s;
          neg = (case t of [] \<Rightarrow> False | c # _ \<Rightarrow> c = CHR ''-'');
          u = (case t of [] \<Rightarrow> [] | c # r \<Rightarrow> if c = CHR ''-'' \<or> c = CHR ''+'' then r else t);
          ds = takeWhile isDigit u
      in if ds = [] then None
         else Some (if neg then - int (digitsValue 0 ds) else int (digitsValue 0 ds)))"

definition numGe :: "int option \<Rightarrow> int \<Rightarrow> bool" where
  \<comment> \<open>\<open>x >= k\<close> on JavaScript numbers: false for \<open>NaN\<close>.\<close>
  "numGe x k = (case x of None \<Rightarrow> False | Some n \<Rightarrow> k \<le> n)"

definition numLe :: "int option \<Rightarrow> int \<Rightarrow> bool" where
  "numLe x k = (case x of None \<Rightarrow> False | Some n \<Rightarrow> n \<le> k)"

definition joinWith :: "string \<Rightarrow> string list \<Rightarrow> string" where
  \<comment> \<open>\<open>xs.join(sep)\<close>\<close>
  "joinWith sep xs = (case xs of [] \<Rightarrow> [] | y # ys \<Rightarrow> foldl (\<lambda>acc z. acc @ sep @ z) y ys)"


section \<open>node-support: the capability model and the target validator\<close>

definition EXTENDED_ABI_MAPPING :: "(string \<times> string) list" where
  "EXTENDED_ABI_MAPPING =
     [(''m14'', ''node0.12''), (''m46'', ''node4''), (''m47'', ''node5''), (''m48'', ''node6''),
      (''m51'', ''node7''), (''m57'', ''node8''), (''m59'', ''node9''), (''m64'', ''node10''),
      (''m67'', ''node11''), (''m72'', ''node12''), (''m79'', ''node13''), (''m83'', ''node14''),
      (''m88'', ''node15''), (''m93'', ''node16''), (''m102'', ''node17''), (''m108'', ''node18''),
      (''m111'', ''node19''), (''m115'', ''node20''), (''m120'', ''node21''), (''m127'', ''node22''),
      (''m131'', ''node23''), (''m137'', ''node24'')]"

definition SEA_SUPPORTED_VERSIONS :: "string list" where
  "SEA_SUPPORTED_VERSIONS = [''node19'', ''node20'', ''node21'', ''node22'', ''node23'', ''node24'']"

definition SEA_STABLE_VERSIONS :: "string list" where
  "SEA_STABLE_VERSIONS = [''node21'', ''node22'', ''node23'', ''node24'']"

record NodeVersionInfo =
  version :: string
  abi :: "int option"
  supportsSEA :: bool
  stableSEA :: bool
  isSupported :: bool

record SEACapabilities =
  hasNativeSEA :: bool
  supportsAssets :: bool
  supportsSnapshot :: bool
  supportsCodeCache :: bool
  requiresPostject :: bool

definition enhancedIsValidNodeRange :: "string \<Rightarrow> bool" where
  "enhancedIsValidNodeRange nodeRange =
     (if nodeRange = ''latest'' then True
      else if \<not> startsWith nodeRange ''node'' then False
      else (let versionNumber = parseInt10 (replaceFirst ''node'' '''' nodeRange)
            in numGe versionNumber 8 \<and> numLe versionNumber 24))"

fun findAbi :: "string \<Rightarrow> (string \<times> string) list \<Rightarrow> int option" where
  \<comment> \<open>The loop over \<open>Object.entries(EXTENDED_ABI_MAPPING)\<close>: \<open>abi\<close> starts at 0 and takes the
      number of the first entry whose version equals \<open>version\<close>.\<close>
  "findAbi ver [] = Some 0"
| "findAbi ver ((abiStr, nodeVer) # rest) =
     (if nodeVer = ver then parseInt10 (replaceFirst ''m'' '''' abiStr) else findAbi ver rest)"

definition getNodeVersionInfo :: "string \<Rightarrow> NodeVersionInfo" where
  "getNodeVersionInfo nodeRange =
     (let ver = (if startsWith nodeRange ''node'' then nodeRange else ''node'' @ nodeRange);
          versionNumber = parseInt10 (replaceFirst ''node'' '''' ver)
      in \<lparr> version = ver,
           abi = findAbi ver EXTENDED_ABI_MAPPING,
           supportsSEA = (ver \<in> set SEA_SUPPORTED_VERSIONS),
           stableSEA = (ver \<in> set SEA_STABLE_VERSIONS),
           isSupported = (numGe versionNumber 8 \<and> numLe versionNumber 24) \<rparr>)"

definition hasStableSEA :: "string \<Rightarrow> bool" where
  "hasStableSEA nodeRange = stableSEA (getNodeVersionInfo nodeRange)"

definition getSEACapabilities :: "string \<Rightarrow> SEACapabilities" where
  "getSEACapabilities nodeRange =
     (let info = getNodeVersionInfo nodeRange;
          versionNumber = parseInt10 (replaceFirst ''node'' '''' (version info))
      in if \<not> supportsSEA info
         then \<lparr> hasNativeSEA = False, supportsAssets = False, supportsSnapshot = False,
                supportsCodeCache = False, requiresPostject = False \<rparr>
         else \<lparr> hasNativeSEA = True,
                supportsAssets = numGe versionNumber 20,
                supportsSnapshot = numGe versionNumber 20,
                supportsCodeCache = numGe versionNumber 20,
                requiresPostject = True \<rparr>)"

datatype strategy = StrategySea | StrategyTraditional | StrategyHybrid

record StrategyOptions =
  so_crossCompile :: "bool option"
  so_hasComplexRequires :: "bool option"
  so_hasAssets :: "bool option"

definition orDefault :: "bool option \<Rightarrow> bool \<Rightarrow> bool" where
  \<comment> \<open>A destructuring default: it applies when the property is \<open>undefined\<close>.\<close>
  "orDefault x d = (case x of None \<Rightarrow> d | Some b \<Rightarrow> b)"

definition getBuildStrategy :: "string \<Rightarrow> StrategyOptions \<Rightarrow> strategy" where
  "getBuildStrategy nodeRange opts =
     (let info = getNodeVersionInfo nodeRange;
          crossCompile = orDefault (so_crossCompile opts) False;
          hasComplexRequires = orDefault (so_hasComplexRequires opts) False
      in if \<not> isSupported info then StrategyTraditional
         else if crossCompile then StrategyTraditional
         else if hasComplexRequires then StrategyTraditional
         else if stableSEA info \<and> \<not> hasComplexRequires then StrategySea
         else if supportsSEA info then StrategyHybrid
         else StrategyTraditional)"

record Target =
  nodeRange :: string
  platform :: string
  arch :: string

record Validation =
  valid :: bool
  reason :: "string option"

definition supportedPlatforms :: "string list" where
  "supportedPlatforms = [''linux'', ''macos'', ''win'', ''alpine'', ''linuxstatic'']"

definition supportedArchs :: "string list" where
  "supportedArchs = [''x64'', ''arm64'', ''x86'']"

definition validateTarget :: "Target \<Rightarrow> Validation" where
  "validateTarget target =
     (let info = getNodeVersionInfo (nodeRange target)
      in if \<not> isSupported info
         then \<lparr> valid = False,
                reason = Some (''Node.js version '' @ nodeRange target
                               @ '' is not supported. Supported versions: 8-24'') \<rparr>
         else if platform target \<notin> set supportedPlatforms
         then \<lparr> valid = False,
                reason = Some (''Platform '' @ platform target
                               @ '' is not supported. Supported platforms: ''
                               @ joinWith '', '' supportedPlatforms) \<rparr>
         else if arch target \<notin> set supportedArchs
         then \<lparr> valid = False,
                reason = Some (''Architecture '' @ arch target
                               @ '' is not supported. Supported architectures: ''
                               @ joinWith '', '' supportedArchs) \<rparr>
         else \<lparr> valid = True, reason = None \<rparr>)"

section \<open>The environment: file system, external processes, clock and path library\<close>

text \<open>
  The native pipeline works through the file system and external processes. The model
  threads a \<open>world\<close> through every operation: the set of paths that exist and a journal of
  the operations issued so far, oldest first. What a process does, whether a file
  operation fails, what the clock shows, what Node's \<open>path\<close> module computes and which
  paths lie below a directory are parameters, collected in an \<open>env\<close>; process results and
  failures may depend on the whole world, hence on the history. Logging is left out.

  An asynchronous computation has one of three outcomes: it returns a value; it throws,
  which \<open>catch\<close> and \<open>finally\<close> see (a thrown value is represented by its message); or the
  process ends with an uncaught exception, which nothing in the program sees.
\<close>

record CommandResult =
  exitCode :: int
  stdout :: string
  stderr :: string

datatype spawn_result =
    Exited CommandResult
  | SpawnThrows string
  | SpawnFails string

record SEAConfig =
  cfg_main :: string
  cfg_output :: string
  cfg_disableExperimentalSEAWarning :: "bool option"
  cfg_useSnapshot :: "bool option"
  cfg_useCodeCache :: "bool option"
  cfg_assets :: "(string \<rightharpoonup> string) option"

datatype action =
    RunCommand string "string list"
  | Mkdir string
  | WriteFile string SEAConfig
  | CopyFile string string
  | Rename string string
  | Stat string
  | Rm string

record world =
  files :: "string set"
  journal :: "action list"

record env =
  cwd :: string
  execPath :: string
  runResult :: "world \<Rightarrow> string \<Rightarrow> string list \<Rightarrow> spawn_result"
  fsFailure :: "world \<Rightarrow> action \<Rightarrow> string option"
  statSize :: "world \<Rightarrow> string \<Rightarrow> nat"
  dateNow :: "world \<Rightarrow> int"
  below :: "string \<Rightarrow> string \<Rightarrow> bool"
  pathJoin :: "string \<Rightarrow> string \<Rightarrow> string"
  pathBasename :: "string \<Rightarrow> string \<Rightarrow> string"
  pathExtname :: "string \<Rightarrow> string"
  pathDirname :: "string \<Rightarrow> string"
  pathRelative :: "string \<Rightarrow> string \<Rightarrow> string"

datatype 'a outcome = Returned 'a | Thrown string | Crashed string

type_synonym 'a io = "world \<Rightarrow> 'a outcome \<times> world"

definition returnIO :: "'a \<Rightarrow> 'a io" where
  "returnIO x w = (Returned x, w)"

definition throwIO :: "string \<Rightarrow> 'a io" where
  "throwIO msg w = (Thrown msg, w)"

definition bindIO :: "'a io \<Rightarrow> ('a \<Rightarrow> 'b io) \<Rightarrow> 'b io" where
  \<comment> \<open>\<open>const x = await m; ...\<close>: the rest runs only when \<open>m\<close> returns.\<close>
  "bindIO m f w =
     (case m w of
        (Returned x, w') \<Rightarrow> f x w'
      | (Thrown err, w') \<Rightarrow> (Thrown err, w')
      | (Crashed err, w') \<Rightarrow> (Crashed err, w'))"

definition catchIO :: "'a io \<Rightarrow> (string \<Rightarrow> 'a io) \<Rightarrow> 'a io" where
  \<comment> \<open>\<open>try { m } catch (err) { h }\<close>: only a throw reaches the handler.\<close>
  "catchIO m h w =
     (case m w of
        (Returned x, w') \<Rightarrow> (Returned x, w')
      | (Thrown err, w') \<Rightarrow> h err w'
      | (Crashed err, w') \<Rightarrow> (Crashed err, w'))"

definition finallyIO :: "'a io \<Rightarrow> unit io \<Rightarrow> 'a io" where
  \<comment> \<open>\<open>try { m } finally { c }\<close>: \<open>c\<close> runs after a return and after a throw of \<open>m\<close>, and
      the outcome of \<open>m\<close> stands unless \<open>c\<close> itself throws; \<open>c\<close> does not run when the
      process has ended.\<close>
  "finallyIO m c w =
     (case m w of
        (Crashed err, w') \<Rightarrow> (Crashed err, w')
      | (Returned x, w') \<Rightarrow>
          (case c w' of
             (Returned _, w'') \<Rightarrow> (Returned x, w'')
           | (Thrown err, w'') \<Rightarrow> (Thrown err, w'')
           | (Crashed err, w'') \<Rightarrow> (Crashed err, w''))
      | (Thrown msg, w') \<Rightarrow>
          (case c w' of
             (Returned _, w'') \<Rightarrow> (Thrown msg, w'')
           | (Thrown err, w'') \<Rightarrow> (Thrown err, w'')
           | (Crashed err, w'') \<Rightarrow> (Crashed err, w'')))"

definition record_action :: "action \<Rightarrow> world \<Rightarrow> world" where
  "record_action a w = w\<lparr> journal := journal w @ [a] \<rparr>"

definition runCommand :: "env \<Rightarrow> string \<Rightarrow> string list \<Rightarrow> CommandResult io" where
  \<comment> \<open>The promise resolves when the child closes. It is rejected only when \<open>spawn\<close> throws
      at once, inside the executor. When the command cannot be started the child emits
      \<open>error\<close>; there is no listener for it, so the process ends with an uncaught exception.\<close>
  "runCommand e command args w =
     (case runResult e w command args of
        Exited result \<Rightarrow> (Returned result, record_action (RunCommand command args) w)
      | SpawnThrows msg \<Rightarrow> (Thrown msg, record_action (RunCommand command args) w)
      | SpawnFails msg \<Rightarrow> (Crashed msg, record_action (RunCommand command args) w))"

definition fsOperation :: "env \<Rightarrow> action \<Rightarrow> (string set \<Rightarrow> string set) \<Rightarrow> unit io" where
  \<comment> \<open>A file operation either fails, leaving the paths as they are, or has its effect.\<close>
  "fsOperation e a effect w =
     (case fsFailure e w a of
        Some msg \<Rightarrow> (Thrown msg, record_action a w)
      | None \<Rightarrow> (Returned (), record_action a (w\<lparr> files := effect (files w) \<rparr>)))"

definition fs_mkdir :: "env \<Rightarrow> string \<Rightarrow> unit io" where
  \<comment> \<open>\<open>fs.mkdir(dir, { recursive: true })\<close>: the directory and the directories above it.\<close>
  "fs_mkdir e dir = fsOperation e (Mkdir dir) (\<lambda>fs. insert dir (fs \<union> {p. below e p dir}))"

definition fs_writeFile :: "env \<Rightarrow> string \<Rightarrow> SEAConfig \<Rightarrow> unit io" where
  "fs_writeFile e path config = fsOperation e (WriteFile path config) (insert path)"

definition fs_copyFile :: "env \<Rightarrow> string \<Rightarrow> string \<Rightarrow> unit io" where
  "fs_copyFile e src dst = fsOperation e (CopyFile src dst) (insert dst)"

definition fs_rename :: "env \<Rightarrow> string \<Rightarrow> string \<Rightarrow> unit io" where
  "fs_rename e src dst = fsOperation e (Rename src dst) (\<lambda>fs. insert dst (fs - {src}))"

definition fs_stat :: "env \<Rightarrow> string \<Rightarrow> nat io" where
  "fs_stat e path w =
     (case fsOperation e (Stat path) (\<lambda>fs. fs) w of
        (Returned _, w') \<Rightarrow> (Returned (statSize e w path), w')
      | (Thrown err, w') \<Rightarrow> (Thrown err, w')
      | (Crashed err, w') \<Rightarrow> (Crashed err, w'))"

definition fs_rm :: "env \<Rightarrow> string \<Rightarrow> unit io" where
  \<comment> \<open>\<open>fs.rm(dir, { recursive: true, force: true })\<close>: the directory and all below it.\<close>
  "fs_rm e dir = fsOperation e (Rm dir) (\<lambda>fs. {p \<in> fs. p \<noteq> dir \<and> \<not> below e dir p})"

definition existsSync :: "world \<Rightarrow> string \<Rightarrow> bool" where
  "existsSync w path = (path \<in> files w)"


section \<open>Plain JavaScript objects used as tables\<close>

text \<open>
  An object literal and an object filled by assignment have \<open>Object.prototype\<close> above
  them. Reading \<open>obj[key]\<close> gives the own property when there is one and otherwise the
  property that \<open>Object.prototype\<close> has under that name, a function or an object, never a
  string. Writing \<open>obj[key] = value\<close> creates or replaces the own property, except under
  the name \<open>__proto__\<close>: that name is an accessor of \<open>Object.prototype\<close>, whose setter
  ignores a string.
\<close>

datatype js_value = Str string | Inherited string

definition objectPrototypeKeys :: "string list" where
  "objectPrototypeKeys =
     [''constructor'', ''__defineGetter__'', ''__defineSetter__'', ''hasOwnProperty'',
      ''__lookupGetter__'', ''__lookupSetter__'', ''isPrototypeOf'', ''propertyIsEnumerable'',
      ''toString'', ''valueOf'', ''__proto__'', ''toLocaleString'']"

definition objectGet :: "(string \<rightharpoonup> string) \<Rightarrow> string \<Rightarrow> js_value option" where
  \<comment> \<open>\<open>obj[key]\<close>; \<open>None\<close> is \<open>undefined\<close>.\<close>
  "objectGet obj key =
     (case obj key of
        Some v \<Rightarrow> Some (Str v)
      | None \<Rightarrow> if key \<in> set objectPrototypeKeys then Some (Inherited key) else None)"

definition objectSet :: "(string \<rightharpoonup> string) \<Rightarrow> string \<Rightarrow> string \<Rightarrow> (string \<rightharpoonup> string)" where
  \<comment> \<open>\<open>obj[key] = v\<close> for a string \<open>v\<close>.\<close>
  "objectSet obj key v = (if key = ''__proto__'' then obj else obj(key \<mapsto> v))"


section \<open>sea-builder: the native assembly pipeline\<close>

record SEABuildOptions =
  sea_entrypoint :: string
  sea_output :: string
  sea_nodeVersion :: string
  sea_platform :: string
  sea_arch :: string
  sea_assets :: "string list option"
  sea_useSnapshot :: "bool option"
  sea_useCodeCache :: "bool option"
  sea_signBinary :: "bool option"

record SEABuildResult =
  res_success :: bool
  res_outputPath :: string
  res_size :: nat
  res_buildTime :: int
  res_warnings :: "string list"
  res_errors :: "string list"

record SEABuilder =
  tempDir :: string

definition truthy :: "bool option \<Rightarrow> bool" where
  \<comment> \<open>An optional boolean used as a condition: \<open>undefined\<close> counts as false.\<close>
  "truthy x = (x = Some True)"

definition new_SEABuilder :: "env \<Rightarrow> SEABuilder" where
  \<comment> \<open>The constructor.\<close>
  "new_SEABuilder e = \<lparr> tempDir = pathJoin e (cwd e) ''.pkg-temp'' \<rparr>"

definition SEABuilder_canUseSEA :: "env \<Rightarrow> SEABuilder \<Rightarrow> string \<Rightarrow> bool io" where
  "SEABuilder_canUseSEA e b nodeVersion =
     catchIO
       (if \<not> hasStableSEA nodeVersion then returnIO False
        else bindIO (runCommand e ''node'' [''--help''])
               (\<lambda>result. returnIO (includesStr (stdout result) ''--experimental-sea-config'')))
       (\<lambda>_. returnIO False)"

definition convertAssetsToSEAFormat :: "env \<Rightarrow> world \<Rightarrow> string list \<Rightarrow> (string \<rightharpoonup> string)" where
  "convertAssetsToSEAFormat e w assets =
     foldl (\<lambda>seaAssets asset.
              if existsSync w asset
              then objectSet seaAssets (pathRelative e (cwd e) asset) asset
              else seaAssets)
           Map.empty assets"

definition seaConfigRecord :: "env \<Rightarrow> SEABuilder \<Rightarrow> SEABuildOptions \<Rightarrow> world \<Rightarrow> SEAConfig" where
  \<comment> \<open>The record that \<open>createSEAConfig\<close> assembles before it writes it.\<close>
  "seaConfigRecord e b options w =
     (let capabilities = getSEACapabilities (sea_nodeVersion options);
          config0 = \<lparr> cfg_main = sea_entrypoint options,
                      cfg_output = pathJoin e (tempDir b) ''sea-prep.blob'',
                      cfg_disableExperimentalSEAWarning = Some True,
                      cfg_useSnapshot = None, cfg_useCodeCache = None, cfg_assets = None \<rparr>;
          config1 = (if supportsSnapshot capabilities \<and> truthy (sea_useSnapshot options)
                     then config0\<lparr> cfg_useSnapshot := Some True \<rparr> else config0);
          config2 = (if supportsCodeCache capabilities \<and> sea_useCodeCache options \<noteq> Some False
                     then config1\<lparr> cfg_useCodeCache := Some True \<rparr> else config1)
      in (case sea_assets options of
            None \<Rightarrow> config2
          | Some assets \<Rightarrow>
              if supportsAssets capabilities
              then config2\<lparr> cfg_assets := Some (convertAssetsToSEAFormat e w assets) \<rparr>
              else config2))"

definition SEABuilder_createSEAConfig :: "env \<Rightarrow> SEABuilder \<Rightarrow> SEABuildOptions \<Rightarrow> SEAConfig io" where
  "SEABuilder_createSEAConfig e b options w =
     (let config = seaConfigRecord e b options w;
          configPath = pathJoin e (tempDir b) ''sea-config.json''
      in bindIO (fs_writeFile e configPath config) (\<lambda>_. returnIO config) w)"

definition SEABuilder_generateBlob :: "env \<Rightarrow> SEABuilder \<Rightarrow> SEAConfig \<Rightarrow> unit io" where
  "SEABuilder_generateBlob e b config =
     (let configPath = pathJoin e (tempDir b) ''sea-config.json''
      in bindIO (runCommand e ''node'' [''--experimental-sea-config'', configPath])
           (\<lambda>result. if exitCode result \<noteq> 0
                      then throwIO (''Failed to generate SEA blob: '' @ stderr result)
                      else returnIO ()))"

definition SEABuilder_copyNodeBinary :: "env \<Rightarrow> SEABuilder \<Rightarrow> SEABuildOptions \<Rightarrow> string io" where
  "SEABuilder_copyNodeBinary e b options =
     (let extension = (if sea_platform options = ''win'' then ''.exe'' else []);
          binaryName = pathBasename e (sea_output options) (pathExtname e (sea_output options))
                       @ extension;
          binaryPath = pathJoin e (tempDir b) binaryName
      in bindIO (fs_copyFile e (execPath e) binaryPath) (\<lambda>_. returnIO binaryPath))"

definition SEABuilder_removeSignature :: "env \<Rightarrow> string \<Rightarrow> string \<Rightarrow> unit io" where
  "SEABuilder_removeSignature e binaryPath plat =
     (if plat = ''macos''
      then bindIO (runCommand e ''codesign'' [''--remove-signature'', binaryPath])
             (\<lambda>_. returnIO ())
      else if plat = ''win''
      then catchIO (bindIO (runCommand e ''signtool'' [''remove'', ''/s'', binaryPath])
                      (\<lambda>_. returnIO ()))
                   (\<lambda>_. returnIO ())
      else returnIO ())"

definition SEABuilder_injectBlob :: "env \<Rightarrow> string \<Rightarrow> string \<Rightarrow> string \<Rightarrow> unit io" where
  "SEABuilder_injectBlob e binaryPath blobPath plat =
     (let args0 = [binaryPath, ''NODE_SEA_BLOB'', blobPath, ''--sentinel-fuse'',
                   ''NODE_SEA_FUSE_fce680ab2cc467b6e072b8b5df1996b2''];
          args = (if plat = ''macos''
                  then args0 @ [''--macho-segment-name'', ''NODE_SEA''] else args0)
      in bindIO (runCommand e ''npx'' (''postject'' # args))
           (\<lambda>result. if exitCode result \<noteq> 0
                      then throwIO (''Failed to inject blob: '' @ stderr result)
                      else returnIO ()))"

definition SEABuilder_signBinary :: "env \<Rightarrow> string \<Rightarrow> string \<Rightarrow> unit io" where
  "SEABuilder_signBinary e binaryPath plat =
     (if plat = ''macos''
      then bindIO (runCommand e ''codesign'' [''--sign'', ''-'', binaryPath]) (\<lambda>_. returnIO ())
      else if plat = ''win''
      then catchIO (bindIO (runCommand e ''signtool'' [''sign'', ''/fd'', ''SHA256'', binaryPath])
                      (\<lambda>_. returnIO ()))
                   (\<lambda>_. returnIO ())
      else returnIO ())"

definition SEABuilder_moveToFinalLocation :: "env \<Rightarrow> string \<Rightarrow> string \<Rightarrow> string io" where
  "SEABuilder_moveToFinalLocation e tempPath outputPath =
     bindIO (fs_rename e tempPath outputPath) (\<lambda>_. returnIO outputPath)"

definition SEABuilder_ensureTempDir :: "env \<Rightarrow> SEABuilder \<Rightarrow> unit io" where
  "SEABuilder_ensureTempDir e b = catchIO (fs_mkdir e (tempDir b)) (\<lambda>_. returnIO ())"

definition SEABuilder_cleanup :: "env \<Rightarrow> SEABuilder \<Rightarrow> unit io" where
  "SEABuilder_cleanup e b = catchIO (fs_rm e (tempDir b)) (\<lambda>_. returnIO ())"

definition notSupportedMessage :: "string \<Rightarrow> string" where
  "notSupportedMessage nodeVersion =
     ''Node.js '' @ nodeVersion @ '' does not support SEA or SEA is not available''"

definition SEABuilder_pipeline :: "env \<Rightarrow> SEABuilder \<Rightarrow> SEABuildOptions \<Rightarrow> int \<Rightarrow> SEABuildResult io" where
  \<comment> \<open>The steps after the capability check, inside the \<open>try\<close> block of \<open>build\<close>.\<close>
  "SEABuilder_pipeline e b options startTime =
     bindIO (SEABuilder_ensureTempDir e b) (\<lambda>_.
     bindIO (SEABuilder_createSEAConfig e b options) (\<lambda>seaConfig.
     bindIO (SEABuilder_generateBlob e b seaConfig) (\<lambda>_.
     bindIO (SEABuilder_copyNodeBinary e b options) (\<lambda>binaryPath.
     bindIO (if sea_platform options = ''macos'' \<or> sea_platform options = ''win''
             then SEABuilder_removeSignature e binaryPath (sea_platform options)
             else returnIO ()) (\<lambda>_.
     bindIO (SEABuilder_injectBlob e binaryPath (cfg_output seaConfig) (sea_platform options)) (\<lambda>_.
     bindIO (if truthy (sea_signBinary options)
                \<and> (sea_platform options = ''macos'' \<or> sea_platform options = ''win'')
             then SEABuilder_signBinary e binaryPath (sea_platform options)
             else returnIO ()) (\<lambda>_.
     bindIO (SEABuilder_moveToFinalLocation e binaryPath (sea_output options)) (\<lambda>finalPath.
     bindIO (fs_stat e finalPath) (\<lambda>fileSize.
     (\<lambda>w. (Returned \<lparr> res_success = True, res_outputPath = finalPath, res_size = fileSize,
                       res_buildTime = dateNow e w - startTime,
                       res_warnings = [], res_errors = [] \<rparr>, w)))))))))))"

definition SEABuilder_tryBlock :: "env \<Rightarrow> SEABuilder \<Rightarrow> SEABuildOptions \<Rightarrow> int \<Rightarrow> SEABuildResult io" where
  \<comment> \<open>The \<open>try\<close> block of \<open>build\<close>: the capability check, then the pipeline.\<close>
  "SEABuilder_tryBlock e b options startTime =
     bindIO (SEABuilder_canUseSEA e b (sea_nodeVersion options)) (\<lambda>canUse.
       if \<not> canUse then throwIO (notSupportedMessage (sea_nodeVersion options))
       else SEABuilder_pipeline e b options startTime)"

definition failedResult :: "env \<Rightarrow> int \<Rightarrow> string \<Rightarrow> SEABuildResult io" where
  \<comment> \<open>The \<open>catch\<close> block of \<open>build\<close>.\<close>
  "failedResult e startTime errorMessage w =
     (Returned \<lparr> res_success = False, res_outputPath = [], res_size = 0,
                 res_buildTime = dateNow e w - startTime,
                 res_warnings = [], res_errors = [errorMessage] \<rparr>, w)"

definition SEABuilder_tryCatch :: "env \<Rightarrow> SEABuilder \<Rightarrow> SEABuildOptions \<Rightarrow> SEABuildResult io" where
  \<comment> \<open>\<open>try { ... } catch (error) { ... }\<close> of \<open>build\<close>, before the \<open>finally\<close> block runs.\<close>
  "SEABuilder_tryCatch e b options w =
     (let startTime = dateNow e w
      in catchIO (SEABuilder_tryBlock e b options startTime) (failedResult e startTime) w)"

definition SEABuilder_build :: "env \<Rightarrow> SEABuilder \<Rightarrow> SEABuildOptions \<Rightarrow> SEABuildResult io" where
  \<comment> \<open>The \<open>finally\<close> block runs \<open>cleanup\<close> after the \<open>try\<close> and the \<open>catch\<close> block.\<close>
  "SEABuilder_build e b options =
     finallyIO (SEABuilder_tryCatch e b options) (SEABuilder_cleanup e b)"

section \<open>hybrid-builder: the decision engine and the orchestrator\<close>

datatype build_mode = Sea | Traditional

datatype force_mode = ForceSea | ForceTraditional | ForceAuto

record HybridBuildOptions =
  entrypoint :: string
  outputFile :: string
  targets :: "Target list"
  assets :: "string list option"
  useSnapshot :: "bool option"
  useCodeCache :: "bool option"
  forceBuildMode :: "force_mode option"
  crossCompile :: "bool option"
  hasComplexRequires :: "bool option"
  signBinary :: "bool option"

record BuildDecision =
  d_target :: Target
  d_buildMode :: build_mode
  d_reason :: string
  d_canUseSEA :: bool
  d_shouldUseSEA :: bool

record TargetResult =
  t_target :: Target
  t_buildMode :: build_mode
  t_result :: SEABuildResult
  t_outputPath :: string

record HybridBuildResult =
  agg_success :: bool
  agg_results :: "TargetResult list"
  agg_totalTime :: int
  agg_warnings :: "string list"
  agg_errors :: "string list"

record HybridBuilder =
  seaBuilder :: SEABuilder

definition new_HybridBuilder :: "env \<Rightarrow> HybridBuilder" where
  \<comment> \<open>The constructor: one \<open>SEABuilder\<close> for the life of the orchestrator.\<close>
  "new_HybridBuilder e = \<lparr> seaBuilder = new_SEABuilder e \<rparr>"

definition modeName :: "build_mode \<Rightarrow> string" where
  "modeName m = (case m of Sea \<Rightarrow> ''sea'' | Traditional \<Rightarrow> ''traditional'')"

definition interpolate :: "string option \<Rightarrow> string" where
  \<comment> \<open>An optional string inside a template literal.\<close>
  "interpolate x = (case x of None \<Rightarrow> ''undefined'' | Some s \<Rightarrow> s)"

definition targetName :: "Target \<Rightarrow> string" where
  "targetName t = nodeRange t @ ''-'' @ platform t @ ''-'' @ arch t"

definition decideAuto :: "Target \<Rightarrow> HybridBuildOptions \<Rightarrow> bool \<Rightarrow> BuildDecision" where
  \<comment> \<open>The part of \<open>decideBuildStrategy\<close> after the forced mode: \<open>canUse\<close> is the answer of
      \<open>canUseSEA\<close>.\<close>
  "decideAuto target options canUse =
     (if \<not> canUse
      then \<lparr> d_target = target, d_buildMode = Traditional,
             d_reason = ''Node.js '' @ nodeRange target @ '' does not support SEA'',
             d_canUseSEA = False, d_shouldUseSEA = False \<rparr>
      else
        (let strat = getBuildStrategy (nodeRange target)
                       \<lparr> so_crossCompile = crossCompile options,
                         so_hasComplexRequires = hasComplexRequires options,
                         so_hasAssets = Some (0 < (case assets options of None \<Rightarrow> 0
                                                    | Some xs \<Rightarrow> length xs)) \<rparr>;
             chosen =
               (case strat of
                  StrategySea \<Rightarrow> (Sea, ''Optimal for simple projects with stable SEA support'')
                | StrategyTraditional \<Rightarrow>
                    (Traditional, ''Required for complex projects or cross-compilation'')
                | StrategyHybrid \<Rightarrow>
                    if stableSEA (getNodeVersionInfo (nodeRange target))
                    then (Sea, ''Using SEA for better performance (hybrid mode)'')
                    else (Traditional, ''Using traditional PKG for reliability (hybrid mode)''))
         in \<lparr> d_target = target, d_buildMode = fst chosen, d_reason = snd chosen,
              d_canUseSEA = canUse, d_shouldUseSEA = (fst chosen = Sea) \<rparr>))"

definition forcedModeOf :: "force_mode option \<Rightarrow> build_mode option" where
  \<comment> \<open>\<open>options.forceBuildMode && options.forceBuildMode !== 'auto'\<close>: the mode that the
      user forced, if any.\<close>
  "forcedModeOf f =
     (case f of
        None \<Rightarrow> None
      | Some ForceAuto \<Rightarrow> None
      | Some ForceSea \<Rightarrow> Some Sea
      | Some ForceTraditional \<Rightarrow> Some Traditional)"

definition HybridBuilder_decideBuildStrategy ::
  "env \<Rightarrow> HybridBuilder \<Rightarrow> Target \<Rightarrow> HybridBuildOptions \<Rightarrow> BuildDecision io" where
  "HybridBuilder_decideBuildStrategy e hb target options =
     (let validation = validateTarget target
      in if \<not> valid validation
         then returnIO \<lparr> d_target = target, d_buildMode = Traditional,
                 d_reason = ''Target validation failed: '' @ interpolate (reason validation),
                 d_canUseSEA = False, d_shouldUseSEA = False \<rparr>
         else
           (case forcedModeOf (forceBuildMode options) of
              Some forced \<Rightarrow>
                bindIO (SEABuilder_canUseSEA e (seaBuilder hb) (nodeRange target))
                  (\<lambda>canUse. returnIO
                     \<lparr> d_target = target, d_buildMode = forced,
                       d_reason = ''User forced '' @ modeName forced @ '' mode'',
                       d_canUseSEA = canUse,
                       d_shouldUseSEA = (forced = Sea \<and> canUse) \<rparr>)
            | None \<Rightarrow>
                bindIO (SEABuilder_canUseSEA e (seaBuilder hb) (nodeRange target))
                  (\<lambda>canUse. returnIO (decideAuto target options canUse))))"

fun HybridBuilder_analyzeBuildDecisions ::
  "env \<Rightarrow> HybridBuilder \<Rightarrow> HybridBuildOptions \<Rightarrow> Target list \<Rightarrow> BuildDecision list io" where
  \<comment> \<open>The loop over \<open>options.targets\<close>; the fourth argument is what is left of them.\<close>
  "HybridBuilder_analyzeBuildDecisions e hb options [] = returnIO []"
| "HybridBuilder_analyzeBuildDecisions e hb options (target # rest) =
     bindIO (HybridBuilder_decideBuildStrategy e hb target options) (\<lambda>decision.
     bindIO (HybridBuilder_analyzeBuildDecisions e hb options rest) (\<lambda>decisions.
     returnIO (decision # decisions)))"

definition HybridBuilder_generateTargetOutput :: "env \<Rightarrow> Target \<Rightarrow> string \<Rightarrow> string" where
  "HybridBuilder_generateTargetOutput e target baseOutput =
     (let ext = (if platform target = ''win'' then ''.exe'' else []);
          baseName = pathBasename e baseOutput (pathExtname e baseOutput);
          dir = pathDirname e baseOutput
      in pathJoin e dir (baseName @ ''-'' @ nodeRange target @ ''-'' @ platform target
                          @ ''-'' @ arch target @ ext))"

definition seaOptionsOf :: "env \<Rightarrow> BuildDecision \<Rightarrow> HybridBuildOptions \<Rightarrow> SEABuildOptions" where
  \<comment> \<open>The options that \<open>buildSingleTarget\<close> hands to the native pipeline.\<close>
  "seaOptionsOf e decision options =
     \<lparr> sea_entrypoint = entrypoint options,
       sea_output = HybridBuilder_generateTargetOutput e (d_target decision) (outputFile options),
       sea_nodeVersion = nodeRange (d_target decision),
       sea_platform = platform (d_target decision),
       sea_arch = arch (d_target decision),
       sea_assets = assets options,
       sea_useSnapshot = useSnapshot options,
       sea_useCodeCache = useCodeCache options,
       sea_signBinary = signBinary options \<rparr>"

definition HybridBuilder_buildSingleTarget ::
  "env \<Rightarrow> HybridBuilder \<Rightarrow> BuildDecision \<Rightarrow> HybridBuildOptions \<Rightarrow> TargetResult io" where
  "HybridBuilder_buildSingleTarget e hb decision options =
     (let targetOutput = HybridBuilder_generateTargetOutput e (d_target decision) (outputFile options)
      in if d_buildMode decision = Sea
         then bindIO (SEABuilder_build e (seaBuilder hb) (seaOptionsOf e decision options))
                (\<lambda>result. returnIO
                   \<lparr> t_target = d_target decision, t_buildMode = Sea,
                     t_result = result, t_outputPath = res_outputPath result \<rparr>)
         else returnIO
                \<lparr> t_target = d_target decision, t_buildMode = Traditional,
                  t_result = \<lparr> res_success = False, res_outputPath = targetOutput,
                               res_size = 0, res_buildTime = 0, res_warnings = [],
                               res_errors =
                                 [''Traditional PKG build not yet integrated in hybrid builder''] \<rparr>,
                  t_outputPath = targetOutput \<rparr>)"

definition recordTarget ::
  "TargetResult list \<times> string list \<Rightarrow> TargetResult \<Rightarrow> TargetResult list \<times> string list" where
  \<comment> \<open>The rest of the inner \<open>try\<close> block: the result is pushed, and the errors of a failed
      result are pushed to \<open>errors\<close>.\<close>
  "recordTarget acc result =
     (if res_success (t_result result) then (fst acc @ [result], snd acc)
      else (fst acc @ [result], snd acc @ res_errors (t_result result)))"

definition recordThrow ::
  "TargetResult list \<times> string list \<Rightarrow> BuildDecision \<Rightarrow> string \<Rightarrow> TargetResult list \<times> string list" where
  \<comment> \<open>The inner \<open>catch\<close> block: no result is pushed.\<close>
  "recordThrow acc decision errorMessage =
     (fst acc,
      snd acc @ [''Target '' @ targetName (d_target decision) @ '': '' @ errorMessage])"

fun HybridBuilder_buildLoop ::
  "env \<Rightarrow> HybridBuilder \<Rightarrow> HybridBuildOptions \<Rightarrow> BuildDecision list
     \<Rightarrow> TargetResult list \<times> string list \<Rightarrow> (TargetResult list \<times> string list) io" where
  \<comment> \<open>\<open>for (const decision of decisions) { try { ... } catch (error) { ... } }\<close>, on the
      pair of the arrays \<open>results\<close> and \<open>errors\<close>.\<close>
  "HybridBuilder_buildLoop e hb options [] acc = returnIO acc"
| "HybridBuilder_buildLoop e hb options (decision # rest) acc =
     bindIO (catchIO (bindIO (HybridBuilder_buildSingleTarget e hb decision options)
                        (\<lambda>result. returnIO (recordTarget acc result)))
                     (\<lambda>errorMessage. returnIO (recordThrow acc decision errorMessage)))
            (HybridBuilder_buildLoop e hb options rest)"

definition aggregate :: "env \<Rightarrow> int \<Rightarrow> TargetResult list \<times> string list \<Rightarrow> HybridBuildResult io" where
  \<comment> \<open>The statements after the loop.\<close>
  "aggregate e startTime acc w =
     (let totalTime = dateNow e w - startTime;
          successCount = length (filter (\<lambda>r. res_success (t_result r)) (fst acc))
      in (Returned \<lparr> agg_success = (successCount = length (fst acc)),
                      agg_results = fst acc,
                      agg_totalTime = totalTime,
                      agg_warnings = [],
                      agg_errors = snd acc \<rparr>, w))"

definition HybridBuilder_build ::
  "env \<Rightarrow> HybridBuilder \<Rightarrow> HybridBuildOptions \<Rightarrow> HybridBuildResult io" where
  \<comment> \<open>Nothing in the outer \<open>try\<close> block throws outside the inner one, so the outer
      \<open>catch\<close> has no branch here.\<close>
  "HybridBuilder_build e hb options w =
     (let startTime = dateNow e w
      in bindIO (HybridBuilder_analyzeBuildDecisions e hb options (targets options)) (\<lambda>decisions.
         bindIO (HybridBuilder_buildLoop e hb options decisions ([], []))
           (aggregate e startTime)) w)"


section \<open>pkg-fetch-extended: the extended version resolver\<close>

text \<open>
  The resolver's collaborators are parameters: the cache directory, whether a path is
  readable (\<open>fs.access\<close>), Node's \<open>path.join\<close>, the text that a property of
  \<open>Object.prototype\<close> gives inside a template literal, and \<open>need\<close> of the \<open>pkg-fetch\<close>
  package, which either returns a local path or fails with a message. The errors of the
  resolver are told apart by where they are raised.
\<close>

datatype fetch_error =
    Unsupported string
  | DownloadFailed string
  | FallbackExhausted string
  | NeedFailed string

record fetch_env =
  cacheDir :: string
  accessible :: "string \<Rightarrow> bool"
  joinPath :: "string \<Rightarrow> string \<Rightarrow> string"
  inheritedText :: "string \<Rightarrow> string"
  need :: "js_value \<Rightarrow> string \<Rightarrow> string \<Rightarrow> string + string"

record ExtendedFetchOptions =
  f_nodeRange :: string
  f_platform :: string
  f_arch :: string
  f_forceBuild :: "bool option"

record ExtendedBinaryInfo =
  b_nodeRange :: string
  b_platform :: string
  b_arch :: string
  b_version :: "js_value option"
  b_url :: string
  b_localPath :: string
  b_isExtended :: bool

definition EXTENDED_NODE_VERSIONS :: "(string \<times> string) list" where
  "EXTENDED_NODE_VERSIONS =
     [(''node20'', ''20.11.1''), (''node21'', ''21.7.3''), (''node22'', ''22.0.0'')]"

definition SUPPORTED_PLATFORMS :: "string list" where
  "SUPPORTED_PLATFORMS = [''linux'', ''macos'', ''win'', ''alpine'', ''linuxstatic'']"

definition SUPPORTED_ARCHITECTURES :: "string list" where
  "SUPPORTED_ARCHITECTURES = [''x64'', ''arm64'']"

definition fallbackMap :: "(string \<times> string) list" where
  "fallbackMap = [(''node20'', ''node18''), (''node21'', ''node18''), (''node22'', ''node18'')]"

definition originalVersions :: "string list" where
  \<comment> \<open>The versions of the original fetch mechanism, as \<open>getSupportedVersions\<close> lists them.\<close>
  "originalVersions = [''node8'', ''node10'', ''node12'', ''node14'', ''node16'', ''node18'']"

definition isExtendedVersion :: "string \<Rightarrow> bool" where
  \<comment> \<open>\<open>Object.keys(EXTENDED_NODE_VERSIONS).includes(nodeRange)\<close>\<close>
  "isExtendedVersion v = (v \<in> set (map fst EXTENDED_NODE_VERSIONS))"

definition requiresExtendedSupport :: "string \<Rightarrow> bool" where
  "requiresExtendedSupport v = (v \<in> set (map fst EXTENDED_NODE_VERSIONS))"

definition renderValue :: "fetch_env \<Rightarrow> js_value option \<Rightarrow> string" where
  \<comment> \<open>A value inside a template literal.\<close>
  "renderValue fe x =
     (case x of
        None \<Rightarrow> ''undefined''
      | Some (Str s) \<Rightarrow> s
      | Some (Inherited key) \<Rightarrow> inheritedText fe key)"

definition generateDownloadUrl ::
  "fetch_env \<Rightarrow> string \<Rightarrow> string \<Rightarrow> js_value option \<Rightarrow> string" where
  "generateDownloadUrl fe plat ar ver =
     (let nodePlatform = objectGet (map_of [(''linux'', ''linux''), (''macos'', ''darwin''),
                                            (''win'', ''win32''), (''alpine'', ''linux''),
                                            (''linuxstatic'', ''linux'')]) plat;
          nodeArch = objectGet (map_of [(''x64'', ''x64''), (''arm64'', ''arm64'')]) ar;
          extension = (if plat = ''win'' then ''.zip'' else ''.tar.xz'')
      in ''https://nodejs.org/dist/v'' @ renderValue fe ver @ ''/node-v'' @ renderValue fe ver
         @ ''-'' @ renderValue fe nodePlatform @ ''-'' @ renderValue fe nodeArch @ extension)"

definition generateLocalPath ::
  "fetch_env \<Rightarrow> string \<Rightarrow> string \<Rightarrow> js_value option \<Rightarrow> string" where
  "generateLocalPath fe plat ar ver =
     (let extension = (if plat = ''win'' then ''.exe'' else []);
          filename = ''fetched-v'' @ renderValue fe ver @ ''-'' @ plat @ ''-'' @ ar @ extension
      in joinPath fe (joinPath fe (cacheDir fe) ''v3.5'') filename)"

definition getBinaryInfo ::
  "fetch_env \<Rightarrow> ExtendedFetchOptions \<Rightarrow> fetch_error + ExtendedBinaryInfo" where
  "getBinaryInfo fe options =
     (if \<not> isExtendedVersion (f_nodeRange options)
      then Inl (Unsupported (''Node.js version '' @ f_nodeRange options
                             @ '' is not supported by extended pkg-fetch''))
      else if f_platform options \<notin> set SUPPORTED_PLATFORMS
      then Inl (Unsupported (''Platform '' @ f_platform options @ '' is not supported''))
      else if f_arch options \<notin> set SUPPORTED_ARCHITECTURES
      then Inl (Unsupported (''Architecture '' @ f_arch options @ '' is not supported''))
      else (let ver = objectGet (map_of EXTENDED_NODE_VERSIONS) (f_nodeRange options)
            in Inr \<lparr> b_nodeRange = f_nodeRange options, b_platform = f_platform options,
                     b_arch = f_arch options, b_version = ver,
                     b_url = generateDownloadUrl fe (f_platform options) (f_arch options) ver,
                     b_localPath = generateLocalPath fe (f_platform options) (f_arch options) ver,
                     b_isExtended = True \<rparr>))"

definition downloadOfficialBinary :: "ExtendedBinaryInfo \<Rightarrow> fetch_error + unit" where
  "downloadOfficialBinary binaryInfo =
     Inl (DownloadFailed ''Official binary download not yet implemented'')"

definition noFallbackMessage :: "string \<Rightarrow> string" where
  "noFallbackMessage v = ''No fallback version available for '' @ v"

definition fallbackToClosestVersion ::
  "fetch_env \<Rightarrow> ExtendedFetchOptions \<Rightarrow> fetch_error + string" where
  \<comment> \<open>\<open>!fallbackVersion\<close> holds of \<open>undefined\<close> and of the empty string.\<close>
  "fallbackToClosestVersion fe options =
     (case objectGet (map_of fallbackMap) (f_nodeRange options) of
        None \<Rightarrow> Inl (FallbackExhausted (noFallbackMessage (f_nodeRange options)))
      | Some fallbackVersion \<Rightarrow>
          if fallbackVersion = Str []
          then Inl (FallbackExhausted (noFallbackMessage (f_nodeRange options)))
          else (case need fe fallbackVersion (f_platform options) (f_arch options) of
                  Inl msg \<Rightarrow> Inl (NeedFailed msg)
                | Inr path \<Rightarrow> Inr path))"

definition fetch :: "fetch_env \<Rightarrow> ExtendedFetchOptions \<Rightarrow> fetch_error + string" where
  "fetch fe options =
     (case getBinaryInfo fe options of
        Inl err \<Rightarrow> Inl err
      | Inr binaryInfo \<Rightarrow>
          if accessible fe (b_localPath binaryInfo) then Inr (b_localPath binaryInfo)
          else (case downloadOfficialBinary binaryInfo of
                  Inr _ \<Rightarrow> Inr (b_localPath binaryInfo)
                | Inl err \<Rightarrow> fallbackToClosestVersion fe options))"


section \<open>Concrete environments and inputs\<close>

definition helpfulNode :: "world \<Rightarrow> string \<Rightarrow> string list \<Rightarrow> spawn_result" where
  \<comment> \<open>Every command exits with 0; the help text of \<open>node\<close> names the configuration flag.\<close>
  "helpfulNode w command args =
     Exited \<lparr> exitCode = 0, stdout = ''  --experimental-sea-config'', stderr = [] \<rparr>"

definition posixEnv :: env where
  \<comment> \<open>Nothing fails; the path functions are the simplest ones that serve the examples.\<close>
  "posixEnv =
     \<lparr> cwd = ''/work'', execPath = ''/usr/bin/node'',
       runResult = helpfulNode,
       fsFailure = (\<lambda>w a. None),
       statSize = (\<lambda>w p. 1024),
       dateNow = (\<lambda>w. int (length (journal w))),
       below = (\<lambda>dir p. startsWith p (dir @ ''/'')),
       pathJoin = (\<lambda>a b. a @ ''/'' @ b),
       pathBasename = (\<lambda>p ext. p),
       pathExtname = (\<lambda>p. []),
       pathDirname = (\<lambda>p. ''.''),
       pathRelative = (\<lambda>from to. to) \<rparr>"

definition busyEnv :: env where
  \<comment> \<open>As \<open>posixEnv\<close>, but every removal fails.\<close>
  "busyEnv = posixEnv\<lparr> fsFailure := (\<lambda>w a. case a of Rm p \<Rightarrow> Some ''EBUSY'' | _ \<Rightarrow> None) \<rparr>"

definition failingInjection :: env where
  \<comment> \<open>As \<open>posixEnv\<close>, but the injection tool exits with 1.\<close>
  "failingInjection =
     posixEnv\<lparr> runResult := (\<lambda>w command args.
        if command = ''npx'' then Exited \<lparr> exitCode = 1, stdout = [], stderr = ''no postject'' \<rparr>
        else helpfulNode w command args) \<rparr>"

definition noCodesign :: env where
  \<comment> \<open>As \<open>posixEnv\<close>, but there is no \<open>codesign\<close> to start, as on a host that is not a Mac.\<close>
  "noCodesign =
     posixEnv\<lparr> runResult := (\<lambda>w command args.
        if command = ''codesign'' then SpawnFails ''spawn codesign ENOENT''
        else helpfulNode w command args) \<rparr>"

definition emptyWorld :: world where
  "emptyWorld = \<lparr> files = {}, journal = [] \<rparr>"

definition seaOptionsFor :: "string \<Rightarrow> string \<Rightarrow> SEABuildOptions" where
  "seaOptionsFor ver plat =
     \<lparr> sea_entrypoint = ''index.js'', sea_output = ''app'', sea_nodeVersion = ver,
       sea_platform = plat, sea_arch = ''x64'', sea_assets = None, sea_useSnapshot = None,
       sea_useCodeCache = None, sea_signBinary = None \<rparr>"

definition hybridOptionsFor :: "Target list \<Rightarrow> HybridBuildOptions" where
  "hybridOptionsFor ts =
     \<lparr> entrypoint = ''index.js'', outputFile = ''app'', targets = ts, assets = None,
       useSnapshot = None, useCodeCache = None, forceBuildMode = None, crossCompile = None,
       hasComplexRequires = None, signBinary = None \<rparr>"

definition linuxTarget :: "string \<Rightarrow> Target" where
  "linuxTarget ver = \<lparr> nodeRange = ver, platform = ''linux'', arch = ''x64'' \<rparr>"

definition macTarget :: "string \<Rightarrow> Target" where
  "macTarget ver = \<lparr> nodeRange = ver, platform = ''macos'', arch = ''arm64'' \<rparr>"

definition forcedSea :: "HybridBuildOptions \<Rightarrow> HybridBuildOptions" where
  "forcedSea options = options\<lparr> forceBuildMode := Some ForceSea \<rparr>"

definition crossCompiled :: "HybridBuildOptions \<Rightarrow> HybridBuildOptions" where
  "crossCompiled options = options\<lparr> crossCompile := Some True \<rparr>"

definition cachedNowhere :: fetch_env where
  \<comment> \<open>Nothing is cached; the original fetch mechanism answers with a path under the cache
      when it is asked for a version by name, and fails otherwise.\<close>
  "cachedNowhere =
     \<lparr> cacheDir = ''/cache'', accessible = (\<lambda>p. False), joinPath = (\<lambda>a b. a @ ''/'' @ b),
       inheritedText = (\<lambda>key. ''function '' @ key @ ''() { [native code] }''),
       need = (\<lambda>v p a. case v of
                 Str name \<Rightarrow> Inr (''/cache/fetched-'' @ name @ ''-'' @ p @ ''-'' @ a)
               | Inherited key \<Rightarrow> Inl ''nodeRange must be a string'') \<rparr>"

definition fetchOptionsFor :: "string \<Rightarrow> ExtendedFetchOptions" where
  "fetchOptionsFor v =
     \<lparr> f_nodeRange = v, f_platform = ''linux'', f_arch = ''x64'', f_forceBuild = None \<rparr>"

definition protoWorld :: world where
  \<comment> \<open>The working directory holds a file named \<open>__proto__\<close> and a file \<open>a.txt\<close>.\<close>
  "protoWorld = \<lparr> files = {''__proto__'', ''a.txt''}, journal = [] \<rparr>"

definition protoOptions :: SEABuildOptions where
  "protoOptions =
     (seaOptionsFor ''node21'' ''linux'')\<lparr> sea_assets := Some [''__proto__'', ''a.txt''] \<rparr>"


section \<open>Notions used in the statements and proofs\<close>


definition onlyDir :: "string \<Rightarrow> action \<Rightarrow> bool" where
  \<comment> \<open>An operation that creates or removes a directory does so on \<open>d\<close>.\<close>
  "onlyDir d a = (case a of Mkdir p \<Rightarrow> p = d | Rm p \<Rightarrow> p = d | _ \<Rightarrow> True)"

definition journal_adds :: "(action \<Rightarrow> bool) \<Rightarrow> (world \<Rightarrow> 'r \<times> world) \<Rightarrow> bool" where
  \<comment> \<open>A computation only appends to the journal, and what it appends satisfies \<open>P\<close>.\<close>
  "journal_adds P m = (\<forall>w. \<exists>acts. journal (snd (m w)) = journal w @ acts \<and> list_all P acts)"

definition errors_collected :: "TargetResult list \<times> string list \<Rightarrow> bool" where
  \<comment> \<open>The loop invariant of the orchestrator: the errors of every failed result recorded
      so far are in the aggregate error list.\<close>
  "errors_collected acc =
     list_all (\<lambda>r. res_success (t_result r) \<or> set (res_errors (t_result r)) \<subseteq> set (snd acc))
       (fst acc)"

definition never_crashes :: "'a io \<Rightarrow> bool" where
  \<comment> \<open>From every state the computation ends by returning or by throwing.\<close>
  "never_crashes m = (\<forall>w x. fst (m w) \<noteq> Crashed x)"

definition everyToolStarts :: "env \<Rightarrow> bool" where
  \<comment> \<open>No command ends the process through an \<open>error\<close> event without a listener.\<close>
  "everyToolStarts e = (\<forall>w command args msg. runResult e w command args \<noteq> SpawnFails msg)"

definition always_returns :: "'a io \<Rightarrow> bool" where
  \<comment> \<open>From every state the computation ends by returning.\<close>
  "always_returns m = (\<forall>w. \<exists>x. fst (m w) = Returned x)"

section \<open>Evaluation on concrete inputs\<close>

lemmas js_defs = startsWith_def parseInt10_def isWhiteSpace_def isDigit_def numGe_def numLe_def
  joinWith_def orDefault_def truthy_def interpolate_def

lemmas support_defs = EXTENDED_ABI_MAPPING_def SEA_SUPPORTED_VERSIONS_def SEA_STABLE_VERSIONS_def
  getNodeVersionInfo_def hasStableSEA_def getSEACapabilities_def getBuildStrategy_def
  supportedPlatforms_def supportedArchs_def validateTarget_def enhancedIsValidNodeRange_def

lemmas io_defs = returnIO_def throwIO_def bindIO_def catchIO_def finallyIO_def record_action_def
  runCommand_def fsOperation_def fs_mkdir_def fs_writeFile_def fs_copyFile_def fs_rename_def
  fs_stat_def fs_rm_def existsSync_def

lemmas sea_defs = new_SEABuilder_def SEABuilder_canUseSEA_def convertAssetsToSEAFormat_def
  seaConfigRecord_def SEABuilder_createSEAConfig_def SEABuilder_generateBlob_def
  SEABuilder_copyNodeBinary_def SEABuilder_removeSignature_def SEABuilder_injectBlob_def
  SEABuilder_signBinary_def SEABuilder_moveToFinalLocation_def SEABuilder_ensureTempDir_def
  SEABuilder_cleanup_def notSupportedMessage_def SEABuilder_pipeline_def SEABuilder_tryBlock_def
  failedResult_def SEABuilder_tryCatch_def SEABuilder_build_def

lemmas hybrid_defs = new_HybridBuilder_def modeName_def targetName_def decideAuto_def
  forcedModeOf_def HybridBuilder_decideBuildStrategy_def HybridBuilder_generateTargetOutput_def
  seaOptionsOf_def HybridBuilder_buildSingleTarget_def recordTarget_def recordThrow_def
  aggregate_def HybridBuilder_build_def

lemmas demo_defs = helpfulNode_def posixEnv_def busyEnv_def failingInjection_def noCodesign_def
  emptyWorld_def seaOptionsFor_def hybridOptionsFor_def linuxTarget_def macTarget_def

lemma info21: "getNodeVersionInfo ''node21'' = \<lparr>version = ''node21'', abi = Some 120, supportsSEA = True,
    stableSEA = True, isSupported = True\<rparr>"
  by (simp add: js_defs support_defs Let_def)

lemma info18: "getNodeVersionInfo ''node18'' = \<lparr>version = ''node18'', abi = Some 108, supportsSEA = False,
    stableSEA = False, isSupported = True\<rparr>"
  by (simp add: js_defs support_defs Let_def)

lemma info20: "getNodeVersionInfo ''node20'' = \<lparr>version = ''node20'', abi = Some 115, supportsSEA = True,
    stableSEA = False, isSupported = True\<rparr>"
  by (simp add: js_defs support_defs Let_def)

lemma info22: "getNodeVersionInfo ''node22'' = \<lparr>version = ''node22'', abi = Some 127, supportsSEA = True,
    stableSEA = True, isSupported = True\<rparr>"
  by (simp add: js_defs support_defs Let_def)

lemma info23: "getNodeVersionInfo ''node23'' = \<lparr>version = ''node23'', abi = Some 131, supportsSEA = True,
    stableSEA = True, isSupported = True\<rparr>"
  by (simp add: js_defs support_defs Let_def)

lemma info7: "\<not> isSupported (getNodeVersionInfo ''node7'')"
  by (simp add: js_defs support_defs Let_def)

lemma help_has_flag: "includesStr ''  --experimental-sea-config'' ''--experimental-sea-config''"
  by (simp add: startsWith_def)

lemmas eval_defs = sea_defs io_defs demo_defs help_has_flag hasStableSEA_def
  getSEACapabilities_def getBuildStrategy_def validateTarget_def supportedPlatforms_def
  supportedArchs_def js_defs hybrid_defs Let_def


section \<open>What the native pipeline adds to the journal\<close>

lemma journal_addsI:
  "(\<And>w. \<exists>acts. journal (snd (m w)) = journal w @ acts \<and> list_all P acts) \<Longrightarrow> journal_adds P m"
  by (simp add: journal_adds_def)

lemma journal_addsD:
  "journal_adds P m \<Longrightarrow> \<exists>acts. journal (snd (m w)) = journal w @ acts \<and> list_all P acts"
  by (simp add: journal_adds_def)

lemma adds_returnIO: "journal_adds P (returnIO x)"
  by (simp add: journal_adds_def returnIO_def)

lemma adds_throwIO: "journal_adds P (throwIO msg)"
  by (simp add: journal_adds_def throwIO_def)

lemma adds_pure: "journal_adds P (\<lambda>w. (f w, w))"
  by (simp add: journal_adds_def)

lemma adds_runCommand: "P (RunCommand c args) \<Longrightarrow> journal_adds P (runCommand e c args)"
  by (simp add: journal_adds_def runCommand_def record_action_def split: spawn_result.splits)

lemma adds_fsOperation: "P a \<Longrightarrow> journal_adds P (fsOperation e a eff)"
  by (simp add: journal_adds_def fsOperation_def record_action_def split: option.splits)

lemma adds_bindIO:
  assumes m: "journal_adds P m" and f: "\<And>x. journal_adds P (f x)"
  shows "journal_adds P (bindIO m f)"
proof (rule journal_addsI)
  fix w
  obtain r w1 where mw: "m w = (r, w1)" by (cases "m w")
  from journal_addsD [OF m, of w] mw obtain a1 where
    a1: "journal w1 = journal w @ a1" "list_all P a1" by auto
  show "\<exists>acts. journal (snd (bindIO m f w)) = journal w @ acts \<and> list_all P acts"
  proof (cases r)
    case (Returned x)
    from journal_addsD [OF f, of x w1] obtain a2 where
      a2: "journal (snd (f x w1)) = journal w1 @ a2" "list_all P a2" by auto
    have "journal (snd (bindIO m f w)) = journal w @ (a1 @ a2)"
      using mw Returned a1 a2 by (simp add: bindIO_def)
    moreover have "list_all P (a1 @ a2)" using a1 a2 by simp
    ultimately show ?thesis by blast
  next
    case (Thrown err)
    then show ?thesis using mw a1 by (simp add: bindIO_def)
  next
    case (Crashed err)
    then show ?thesis using mw a1 by (simp add: bindIO_def)
  qed
qed

lemma adds_catchIO:
  assumes m: "journal_adds P m" and h: "\<And>err. journal_adds P (h err)"
  shows "journal_adds P (catchIO m h)"
proof (rule journal_addsI)
  fix w
  obtain r w1 where mw: "m w = (r, w1)" by (cases "m w")
  from journal_addsD [OF m, of w] mw obtain a1 where
    a1: "journal w1 = journal w @ a1" "list_all P a1" by auto
  show "\<exists>acts. journal (snd (catchIO m h w)) = journal w @ acts \<and> list_all P acts"
  proof (cases r)
    case (Returned x)
    then show ?thesis using mw a1 by (simp add: catchIO_def)
  next
    case (Thrown err)
    from journal_addsD [OF h, of err w1] obtain a2 where
      a2: "journal (snd (h err w1)) = journal w1 @ a2" "list_all P a2" by auto
    have "journal (snd (catchIO m h w)) = journal w @ (a1 @ a2)"
      using mw Thrown a1 a2 by (simp add: catchIO_def)
    moreover have "list_all P (a1 @ a2)" using a1 a2 by simp
    ultimately show ?thesis by blast
  next
    case (Crashed err)
    then show ?thesis using mw a1 by (simp add: catchIO_def)
  qed
qed


lemma adds_if: "journal_adds P m \<Longrightarrow> journal_adds P n \<Longrightarrow> journal_adds P (if c then m else n)"
  by simp

lemma adds_fs_stat: "P (Stat p) \<Longrightarrow> journal_adds P (fs_stat e p)"
proof (rule journal_addsI)
  fix w
  assume P: "P (Stat p)"
  have "journal_adds P (fsOperation e (Stat p) (\<lambda>fs. fs))"
    using P by (rule adds_fsOperation [of P "Stat p"])
  from journal_addsD [OF this, of w]
  show "\<exists>acts. journal (snd (fs_stat e p w)) = journal w @ acts \<and> list_all P acts"
    by (auto simp: fs_stat_def split: prod.splits outcome.splits)
qed

lemmas adds_intros = adds_returnIO adds_throwIO adds_runCommand adds_fsOperation adds_bindIO
  adds_catchIO adds_if adds_fs_stat adds_pure

lemma adds_createSEAConfig: "journal_adds (onlyDir d) (SEABuilder_createSEAConfig e b options)"
proof (rule journal_addsI)
  fix w
  have "journal_adds (onlyDir d)
          (bindIO (fs_writeFile e (pathJoin e (tempDir b) ''sea-config.json'')
                     (seaConfigRecord e b options w))
             (\<lambda>_. returnIO (seaConfigRecord e b options w)))"
    by (intro adds_intros) (simp_all add: fs_writeFile_def adds_fsOperation onlyDir_def)
  from journal_addsD [OF this, of w]
  show "\<exists>acts. journal (snd (SEABuilder_createSEAConfig e b options w)) = journal w @ acts
               \<and> list_all (onlyDir d) acts"
    by (simp add: SEABuilder_createSEAConfig_def Let_def)
qed

lemma adds_generateBlob: "journal_adds (onlyDir d) (SEABuilder_generateBlob e b config)"
  unfolding SEABuilder_generateBlob_def Let_def
  by (intro adds_intros) (simp add: onlyDir_def)

lemma adds_copyNodeBinary: "journal_adds (onlyDir d) (SEABuilder_copyNodeBinary e b options)"
  unfolding SEABuilder_copyNodeBinary_def Let_def fs_copyFile_def
  by (intro adds_intros) (simp add: onlyDir_def)

lemma adds_removeSignature: "journal_adds (onlyDir d) (SEABuilder_removeSignature e p plat)"
  unfolding SEABuilder_removeSignature_def
  by (intro adds_intros) (simp_all add: onlyDir_def)

lemma adds_injectBlob: "journal_adds (onlyDir d) (SEABuilder_injectBlob e p blob plat)"
  unfolding SEABuilder_injectBlob_def Let_def
  by (intro adds_intros) (simp add: onlyDir_def)

lemma adds_signBinary: "journal_adds (onlyDir d) (SEABuilder_signBinary e p plat)"
  unfolding SEABuilder_signBinary_def
  by (intro adds_intros) (simp_all add: onlyDir_def)

lemma adds_moveToFinalLocation: "journal_adds (onlyDir d) (SEABuilder_moveToFinalLocation e p out)"
  unfolding SEABuilder_moveToFinalLocation_def fs_rename_def
  by (intro adds_intros) (simp add: onlyDir_def)










section \<open>The course of one native build\<close>

lemma canUseSEA_unstable:
  "\<not> hasStableSEA v \<Longrightarrow> SEABuilder_canUseSEA e b v w = (Returned False, w)"
  by (simp add: SEABuilder_canUseSEA_def catchIO_def returnIO_def)

lemma canUseSEA_stable:
  "hasStableSEA v \<Longrightarrow>
     SEABuilder_canUseSEA e b v w =
       (case runResult e w ''node'' [''--help''] of
          Exited result \<Rightarrow> Returned (includesStr (stdout result) ''--experimental-sea-config'')
        | SpawnThrows msg \<Rightarrow> Returned False
        | SpawnFails msg \<Rightarrow> Crashed msg,
        record_action (RunCommand ''node'' [''--help'']) w)"
  by (simp add: SEABuilder_canUseSEA_def catchIO_def bindIO_def returnIO_def runCommand_def
      split: spawn_result.splits)

lemma canUseSEA_true_iff:
  "fst (SEABuilder_canUseSEA e b v w) = Returned True \<longleftrightarrow>
     hasStableSEA v \<and> (\<exists>r. runResult e w ''node'' [''--help''] = Exited r
                           \<and> includesStr (stdout r) ''--experimental-sea-config'')"
  by (cases "hasStableSEA v")
     (auto simp: canUseSEA_unstable canUseSEA_stable split: spawn_result.splits)

lemma canUseSEA_never_throws: "fst (SEABuilder_canUseSEA e b v w) \<noteq> Thrown msg"
  by (cases "hasStableSEA v")
     (auto simp: canUseSEA_unstable canUseSEA_stable split: spawn_result.splits)

lemma stable_is_supported: "x \<in> set SEA_STABLE_VERSIONS \<Longrightarrow> x \<in> set SEA_SUPPORTED_VERSIONS"
  by (auto simp: SEA_STABLE_VERSIONS_def SEA_SUPPORTED_VERSIONS_def)

lemma stable_has_native: "hasStableSEA v \<Longrightarrow> hasNativeSEA (getSEACapabilities v)"
  by (simp add: hasStableSEA_def getSEACapabilities_def getNodeVersionInfo_def Let_def
      stable_is_supported)

lemma ensureTempDir_returns:
  "\<exists>w'. SEABuilder_ensureTempDir e b w = (Returned (), w')
        \<and> journal w' = journal w @ [Mkdir (tempDir b)]"
  by (auto simp: SEABuilder_ensureTempDir_def catchIO_def fs_mkdir_def fsOperation_def
      returnIO_def record_action_def split: option.splits)

lemma pipeline_starts_with_mkdir:
  "\<exists>rest. journal (snd (SEABuilder_pipeline e b options t0 w))
            = journal w @ Mkdir (tempDir b) # rest"
proof -
  obtain w1 where w1: "SEABuilder_ensureTempDir e b w = (Returned (), w1)"
    and j1: "journal w1 = journal w @ [Mkdir (tempDir b)]"
    using ensureTempDir_returns by blast
  define rest where "rest = (\<lambda>u::unit.
     bindIO (SEABuilder_createSEAConfig e b options) (\<lambda>seaConfig.
     bindIO (SEABuilder_generateBlob e b seaConfig) (\<lambda>_.
     bindIO (SEABuilder_copyNodeBinary e b options) (\<lambda>binaryPath.
     bindIO (if sea_platform options = ''macos'' \<or> sea_platform options = ''win''
             then SEABuilder_removeSignature e binaryPath (sea_platform options)
             else returnIO ()) (\<lambda>_.
     bindIO (SEABuilder_injectBlob e binaryPath (cfg_output seaConfig) (sea_platform options)) (\<lambda>_.
     bindIO (if truthy (sea_signBinary options)
                \<and> (sea_platform options = ''macos'' \<or> sea_platform options = ''win'')
             then SEABuilder_signBinary e binaryPath (sea_platform options)
             else returnIO ()) (\<lambda>_.
     bindIO (SEABuilder_moveToFinalLocation e binaryPath (sea_output options)) (\<lambda>finalPath.
     bindIO (fs_stat e finalPath) (\<lambda>fileSize.
     (\<lambda>w. (Returned \<lparr> res_success = True, res_outputPath = finalPath, res_size = fileSize,
                       res_buildTime = dateNow e w - t0,
                       res_warnings = [], res_errors = [] \<rparr>, w)))))))))))"
  have split: "SEABuilder_pipeline e b options t0 = bindIO (SEABuilder_ensureTempDir e b) rest"
    by (simp add: SEABuilder_pipeline_def rest_def)
  have "journal_adds (onlyDir (tempDir b)) (rest ())"
    unfolding rest_def
    by (intro adds_bindIO adds_if adds_returnIO adds_createSEAConfig
        adds_generateBlob adds_copyNodeBinary adds_removeSignature adds_injectBlob adds_signBinary
        adds_moveToFinalLocation adds_fs_stat adds_pure)
       (simp add: onlyDir_def)
  from journal_addsD [OF this, of w1] obtain acts where
    "journal (snd (rest () w1)) = journal w1 @ acts" by blast
  then have "journal (snd (SEABuilder_pipeline e b options t0 w))
               = journal w @ Mkdir (tempDir b) # acts"
    using w1 j1 by (simp add: split bindIO_def)
  then show ?thesis by blast
qed

lemma cleanup_returns: "fst (SEABuilder_cleanup e b w) = Returned ()"
  by (simp add: SEABuilder_cleanup_def catchIO_def fs_rm_def fsOperation_def returnIO_def
      split: option.splits)

lemma cleanup_journal:
  "journal (snd (SEABuilder_cleanup e b w)) = journal w @ [Rm (tempDir b)]"
  by (simp add: SEABuilder_cleanup_def catchIO_def fs_rm_def fsOperation_def returnIO_def
      record_action_def split: option.splits)


lemma tryCatch_never_throws: "fst (SEABuilder_tryCatch e b options w) \<noteq> Thrown msg"
  by (simp add: SEABuilder_tryCatch_def Let_def catchIO_def failedResult_def
      split: prod.splits outcome.splits)

lemma build_after_return:
  "SEABuilder_tryCatch e b options w = (Returned r, w1) \<Longrightarrow>
     SEABuilder_build e b options w = (Returned r, snd (SEABuilder_cleanup e b w1))"
  using cleanup_returns [of e b w1]
  by (cases "SEABuilder_cleanup e b w1") (simp add: SEABuilder_build_def finallyIO_def)

lemma build_after_crash:
  "SEABuilder_tryCatch e b options w = (Crashed x, w1) \<Longrightarrow>
     SEABuilder_build e b options w = (Crashed x, w1)"
  by (simp add: SEABuilder_build_def finallyIO_def)


lemma build_never_throws: "fst (SEABuilder_build e b options w) \<noteq> Thrown msg"
proof (cases "SEABuilder_tryCatch e b options w")
  case (Pair out w1)
  show ?thesis
  proof (cases out)
    case (Returned r')
    then show ?thesis using Pair build_after_return [of e b options w r' w1] by simp
  next
    case (Thrown msg')
    then show ?thesis using Pair tryCatch_never_throws [of e b options w msg'] by simp
  next
    case (Crashed x)
    then show ?thesis using Pair build_after_crash [of e b options w x w1] by simp
  qed
qed

lemma tryCatch_after_throw:
  "SEABuilder_tryBlock e b options (dateNow e w) w = (Thrown msg, w1) \<Longrightarrow>
     SEABuilder_tryCatch e b options w =
       (Returned \<lparr> res_success = False, res_outputPath = [], res_size = 0,
                   res_buildTime = dateNow e w1 - dateNow e w,
                   res_warnings = [], res_errors = [msg] \<rparr>, w1)"
  by (simp add: SEABuilder_tryCatch_def Let_def catchIO_def failedResult_def)


lemma tryCatch_journal:
  "journal (snd (SEABuilder_tryCatch e b options w))
     = journal (snd (SEABuilder_tryBlock e b options (dateNow e w) w))"
  by (simp add: SEABuilder_tryCatch_def Let_def catchIO_def failedResult_def
      split: prod.splits outcome.splits)

lemma tryBlock_aborted:
  "SEABuilder_canUseSEA e b (sea_nodeVersion options) w = (Returned False, w0) \<Longrightarrow>
     SEABuilder_tryBlock e b options t0 w =
       (Thrown (notSupportedMessage (sea_nodeVersion options)), w0)"
  by (simp add: SEABuilder_tryBlock_def bindIO_def throwIO_def)

lemma tryBlock_proceeds:
  "SEABuilder_canUseSEA e b (sea_nodeVersion options) w = (Returned True, w0) \<Longrightarrow>
     SEABuilder_tryBlock e b options t0 w = SEABuilder_pipeline e b options t0 w0"
  by (simp add: SEABuilder_tryBlock_def bindIO_def)

lemma build_journal_prefix:
  "\<exists>tail. journal (snd (SEABuilder_build e b options w))
            = journal (snd (SEABuilder_tryCatch e b options w)) @ tail"
proof (cases "SEABuilder_tryCatch e b options w")
  case (Pair out w1)
  show ?thesis
  proof (cases out)
    case (Returned r')
    then show ?thesis
      using Pair build_after_return [of e b options w r' w1] by (simp add: cleanup_journal)
  next
    case (Thrown msg)
    then show ?thesis using Pair tryCatch_never_throws [of e b options w msg] by simp
  next
    case (Crashed x)
    then show ?thesis using Pair build_after_crash [of e b options w x w1] by simp
  qed
qed


section \<open>Runs in which every command can be started\<close>

lemma nc_returnIO: "never_crashes (returnIO x)"
  by (simp add: never_crashes_def returnIO_def)

lemma nc_throwIO: "never_crashes (throwIO msg)"
  by (simp add: never_crashes_def throwIO_def)

lemma nc_result: "never_crashes (\<lambda>w. (Returned (f w), w))"
  by (simp add: never_crashes_def)

lemma nc_runCommand: "everyToolStarts e \<Longrightarrow> never_crashes (runCommand e c args)"
  by (auto simp: never_crashes_def everyToolStarts_def runCommand_def split: spawn_result.splits)

lemma nc_fsOperation: "never_crashes (fsOperation e a eff)"
  by (simp add: never_crashes_def fsOperation_def split: option.splits)

lemma nc_fs_stat: "never_crashes (fs_stat e p)"
  by (simp add: never_crashes_def fs_stat_def fsOperation_def split: option.splits)

lemma never_crashesD: "never_crashes m \<Longrightarrow> m w = (r, w1) \<Longrightarrow> r \<noteq> Crashed x"
  by (metis fst_conv never_crashes_def)

lemma nc_bindIO:
  assumes m: "never_crashes m" and f: "\<And>x. never_crashes (f x)"
  shows "never_crashes (bindIO m f)"
  unfolding never_crashes_def
proof (intro allI)
  fix w x
  obtain r w1 where mw: "m w = (r, w1)" by (cases "m w")
  show "fst (bindIO m f w) \<noteq> Crashed x"
  proof (cases r)
    case (Returned y)
    obtain r2 w2 where fw: "f y w1 = (r2, w2)" by (cases "f y w1")
    have "r2 \<noteq> Crashed x" using never_crashesD [OF f fw] .
    then show ?thesis using mw Returned fw by (simp add: bindIO_def)
  next
    case (Thrown msg)
    then show ?thesis using mw by (simp add: bindIO_def)
  next
    case (Crashed y)
    then show ?thesis using never_crashesD [OF m mw, of y] by simp
  qed
qed

lemma nc_catchIO:
  assumes m: "never_crashes m" and h: "\<And>err. never_crashes (h err)"
  shows "never_crashes (catchIO m h)"
  unfolding never_crashes_def
proof (intro allI)
  fix w x
  obtain r w1 where mw: "m w = (r, w1)" by (cases "m w")
  show "fst (catchIO m h w) \<noteq> Crashed x"
  proof (cases r)
    case (Returned y)
    then show ?thesis using mw by (simp add: catchIO_def)
  next
    case (Thrown msg)
    obtain r2 w2 where hw: "h msg w1 = (r2, w2)" by (cases "h msg w1")
    have "r2 \<noteq> Crashed x" using never_crashesD [OF h hw] .
    then show ?thesis using mw Thrown hw by (simp add: catchIO_def)
  next
    case (Crashed y)
    then show ?thesis using never_crashesD [OF m mw, of y] by simp
  qed
qed

lemma nc_finallyIO:
  assumes "never_crashes m" and "never_crashes c"
  shows "never_crashes (finallyIO m c)"
  unfolding never_crashes_def
proof (intro allI)
  fix w x
  obtain r w1 where mw: "m w = (r, w1)" by (cases "m w")
  obtain r2 w2 where cw: "c w1 = (r2, w2)" by (cases "c w1")
  have "r \<noteq> Crashed y" "r2 \<noteq> Crashed y" for y
    using never_crashesD [OF assms(1) mw] never_crashesD [OF assms(2) cw] by simp_all
  then show "fst (finallyIO m c w) \<noteq> Crashed x"
    using mw cw by (cases r; cases r2) (simp_all add: finallyIO_def)
qed

lemma nc_if: "never_crashes m \<Longrightarrow> never_crashes n \<Longrightarrow> never_crashes (if c then m else n)"
  by simp

lemmas nc_intros = nc_returnIO nc_throwIO nc_result nc_runCommand nc_fsOperation nc_fs_stat
  nc_bindIO nc_catchIO nc_if

lemma nc_canUseSEA: "everyToolStarts e \<Longrightarrow> never_crashes (SEABuilder_canUseSEA e b v)"
  unfolding SEABuilder_canUseSEA_def by (intro nc_intros)

lemma nc_createSEAConfig: "never_crashes (SEABuilder_createSEAConfig e b options)"
  by (simp add: never_crashes_def SEABuilder_createSEAConfig_def Let_def bindIO_def
      fs_writeFile_def fsOperation_def returnIO_def split: option.splits)

lemma nc_pipeline:
  assumes "everyToolStarts e"
  shows "never_crashes (SEABuilder_pipeline e b options t0)"
  unfolding SEABuilder_pipeline_def SEABuilder_ensureTempDir_def SEABuilder_generateBlob_def
    SEABuilder_copyNodeBinary_def SEABuilder_removeSignature_def SEABuilder_injectBlob_def
    SEABuilder_signBinary_def SEABuilder_moveToFinalLocation_def fs_mkdir_def fs_copyFile_def
    fs_rename_def Let_def
  by (intro nc_intros nc_createSEAConfig assms)

lemma nc_tryCatch:
  assumes "everyToolStarts e"
  shows "never_crashes (SEABuilder_tryCatch e b options)"
  unfolding never_crashes_def
proof (intro allI)
  fix w x
  have "never_crashes (catchIO (SEABuilder_tryBlock e b options (dateNow e w))
                         (failedResult e (dateNow e w)))"
    unfolding SEABuilder_tryBlock_def
    by (intro nc_intros nc_canUseSEA nc_pipeline assms)
       (simp add: never_crashes_def failedResult_def)
  then show "fst (SEABuilder_tryCatch e b options w) \<noteq> Crashed x"
    by (simp add: never_crashes_def SEABuilder_tryCatch_def Let_def)
qed

lemma nc_cleanup: "never_crashes (SEABuilder_cleanup e b)"
  unfolding SEABuilder_cleanup_def fs_rm_def by (intro nc_intros)

lemma nc_build:
  assumes "everyToolStarts e"
  shows "never_crashes (SEABuilder_build e b options)"
  unfolding SEABuilder_build_def
  by (intro nc_finallyIO nc_tryCatch nc_cleanup assms)

lemma build_returns:
  assumes "everyToolStarts e"
  shows "\<exists>r. fst (SEABuilder_build e b options w) = Returned r"
proof (cases "fst (SEABuilder_build e b options w)")
  case (Returned r)
  then show ?thesis by blast
next
  case (Thrown msg)
  then show ?thesis using build_never_throws [of e b options w msg] by simp
next
  case (Crashed x)
  then show ?thesis using nc_build [OF assms, of b options] by (simp add: never_crashes_def)
qed

section \<open>The orchestrator's loops\<close>

lemma bindIO_Returned:
  assumes "fst (bindIO m f w) = Returned y"
  obtains x w1 where "m w = (Returned x, w1)" and "fst (f x w1) = Returned y"
  using assms by (cases "m w") (auto simp: bindIO_def split: outcome.splits)

lemma decide_target:
  "fst (HybridBuilder_decideBuildStrategy e hb t options w) = Returned d \<Longrightarrow> d_target d = t"
  by (cases "SEABuilder_canUseSEA e (seaBuilder hb) (nodeRange t) w")
     (auto simp: HybridBuilder_decideBuildStrategy_def decideAuto_def Let_def returnIO_def
           bindIO_def split: option.splits outcome.splits if_splits)

lemma analyze_targets:
  "fst (HybridBuilder_analyzeBuildDecisions e hb options ts w) = Returned ds \<Longrightarrow>
     map d_target ds = ts"
proof (induction ts arbitrary: w ds)
  case Nil
  then show ?case by (simp add: returnIO_def)
next
  case (Cons t rest)
  from Cons.prems
  have "fst (bindIO (HybridBuilder_decideBuildStrategy e hb t options)
               (\<lambda>decision. bindIO (HybridBuilder_analyzeBuildDecisions e hb options rest)
                                (\<lambda>decisions. returnIO (decision # decisions))) w) = Returned ds"
    by simp
  then obtain d w1 where
    step: "HybridBuilder_decideBuildStrategy e hb t options w = (Returned d, w1)"
    and more: "fst (bindIO (HybridBuilder_analyzeBuildDecisions e hb options rest)
                      (\<lambda>decisions. returnIO (d # decisions)) w1) = Returned ds"
    by (rule bindIO_Returned)
  from more obtain ds' w2 where
    inner: "HybridBuilder_analyzeBuildDecisions e hb options rest w1 = (Returned ds', w2)"
    and ds: "fst (returnIO (d # ds') w2) = Returned ds"
    by (rule bindIO_Returned)
  have "d_target d = t" using decide_target [of e hb t options w d] step by simp
  moreover have "map d_target ds' = rest" using Cons.IH [of w1 ds'] inner by simp
  moreover have "ds = d # ds'" using ds by (simp add: returnIO_def)
  ultimately show ?case by simp
qed

lemma buildSingleTarget_never_throws:
  "fst (HybridBuilder_buildSingleTarget e hb d options w) \<noteq> Thrown msg"
proof (cases "d_buildMode d = Sea")
  case False
  then show ?thesis by (simp add: HybridBuilder_buildSingleTarget_def Let_def returnIO_def)
next
  case True
  obtain out w1 where b: "SEABuilder_build e (seaBuilder hb) (seaOptionsOf e d options) w = (out, w1)"
    by (cases "SEABuilder_build e (seaBuilder hb) (seaOptionsOf e d options) w")
  have "out \<noteq> Thrown msg"
    using build_never_throws [of e "seaBuilder hb" "seaOptionsOf e d options" w msg] b by simp
  then show ?thesis using True b
    by (cases out) (simp_all add: HybridBuilder_buildSingleTarget_def Let_def bindIO_def returnIO_def)
qed

lemma buildSingleTarget_target:
  "fst (HybridBuilder_buildSingleTarget e hb d options w) = Returned r \<Longrightarrow>
     t_target r = d_target d"
  by (cases "SEABuilder_build e (seaBuilder hb) (seaOptionsOf e d options) w")
     (auto simp: HybridBuilder_buildSingleTarget_def Let_def bindIO_def returnIO_def
           split: if_splits outcome.splits)

lemma loop_step_Returned:
  assumes "fst (catchIO (bindIO (HybridBuilder_buildSingleTarget e hb d options)
                           (\<lambda>result. returnIO (recordTarget acc result)))
                        (\<lambda>errorMessage. returnIO (recordThrow acc d errorMessage)) w) = Returned acc'"
  shows "\<exists>r. fst (HybridBuilder_buildSingleTarget e hb d options w) = Returned r
             \<and> acc' = recordTarget acc r"
proof -
  obtain out w1 where s: "HybridBuilder_buildSingleTarget e hb d options w = (out, w1)"
    by (cases "HybridBuilder_buildSingleTarget e hb d options w")
  show ?thesis
  proof (cases out)
    case (Returned r)
    then show ?thesis using assms s by (simp add: catchIO_def bindIO_def returnIO_def)
  next
    case (Thrown msg)
    then show ?thesis using buildSingleTarget_never_throws [of e hb d options w msg] s by simp
  next
    case (Crashed x)
    then show ?thesis using assms s by (simp add: catchIO_def bindIO_def)
  qed
qed

lemma recordTarget_results: "map t_target (fst (recordTarget acc r)) = map t_target (fst acc) @ [t_target r]"
  by (simp add: recordTarget_def)

lemma recordTarget_errors: "errors_collected acc \<Longrightarrow> errors_collected (recordTarget acc r)"
  by (auto simp: recordTarget_def errors_collected_def list_all_iff)

lemma buildLoop_invariant:
  "fst (HybridBuilder_buildLoop e hb options ds acc w) = Returned acc' \<Longrightarrow>
     map t_target (fst acc') = map t_target (fst acc) @ map d_target ds
     \<and> (errors_collected acc \<longrightarrow> errors_collected acc')"
proof (induction ds arbitrary: acc w)
  case Nil
  then show ?case by (simp add: returnIO_def)
next
  case (Cons d rest)
  let ?step = "catchIO (bindIO (HybridBuilder_buildSingleTarget e hb d options)
                           (\<lambda>result. returnIO (recordTarget acc result)))
                        (\<lambda>errorMessage. returnIO (recordThrow acc d errorMessage))"
  from Cons.prems
  have "fst (bindIO ?step (HybridBuilder_buildLoop e hb options rest) w) = Returned acc'" by simp
  then obtain acc1 w1 where
    step: "?step w = (Returned acc1, w1)"
    and more: "fst (HybridBuilder_buildLoop e hb options rest acc1 w1) = Returned acc'"
    by (rule bindIO_Returned)
  from step obtain r where
    r: "fst (HybridBuilder_buildSingleTarget e hb d options w) = Returned r"
    and acc1: "acc1 = recordTarget acc r"
    using loop_step_Returned [of e hb d options acc w acc1] by auto
  have tgt: "t_target r = d_target d" using buildSingleTarget_target [OF r] .
  from Cons.IH [OF more] have
    ih: "map t_target (fst acc') = map t_target (fst acc1) @ map d_target rest"
        "errors_collected acc1 \<longrightarrow> errors_collected acc'" by simp_all
  show ?case using ih acc1 tgt recordTarget_results [of acc r] recordTarget_errors [of acc r]
    by simp
qed

lemma count_all: "(length (filter P xs) = length xs) = (\<forall>x\<in>set xs. P x)"
  by (metis filter_True length_filter_less nat_neq_iff)

text \<open>
  Where the batch returns, it has one result for each requested target, in order; its
  \<open>success\<close> says that every target succeeded; and the errors of the failed targets are in
  its error list.
\<close>

lemma HybridBuilder_build_when_returned:
  assumes "fst (HybridBuilder_build e hb options w) = Returned r"
  shows "map t_target (agg_results r) = targets options
       \<and> (agg_success r \<longleftrightarrow> list_all (\<lambda>x. res_success (t_result x)) (agg_results r))
       \<and> errors_collected (agg_results r, agg_errors r)"
proof -
  let ?t0 = "dateNow e w"
  from assms
  have "fst (bindIO (HybridBuilder_analyzeBuildDecisions e hb options (targets options))
               (\<lambda>decisions. bindIO (HybridBuilder_buildLoop e hb options decisions ([], []))
                                (aggregate e ?t0)) w) = Returned r"
    by (simp add: HybridBuilder_build_def Let_def)
  then obtain ds w1 where
    an: "HybridBuilder_analyzeBuildDecisions e hb options (targets options) w = (Returned ds, w1)"
    and rest: "fst (bindIO (HybridBuilder_buildLoop e hb options ds ([], [])) (aggregate e ?t0) w1)
                 = Returned r"
    by (rule bindIO_Returned)
  from rest obtain acc w2 where
    lp: "HybridBuilder_buildLoop e hb options ds ([], []) w1 = (Returned acc, w2)"
    and ag: "fst (aggregate e ?t0 acc w2) = Returned r"
    by (rule bindIO_Returned)
  have ds: "map d_target ds = targets options"
    using analyze_targets [of e hb options "targets options" w ds] an by simp
  have start: "errors_collected ([], [])" by (simp add: errors_collected_def)
  from buildLoop_invariant [of e hb options ds "([], [])" w1 acc] lp start
  have inv: "map t_target (fst acc) = map d_target ds" "errors_collected acc" by simp_all
  have r: "agg_results r = fst acc" "agg_errors r = snd acc"
       "agg_success r = (length (filter (\<lambda>x. res_success (t_result x)) (fst acc)) = length (fst acc))"
    using ag by (auto simp: aggregate_def Let_def)
  show ?thesis using r inv ds by (simp add: count_all list_all_iff)
qed








lemma ar_returnIO: "always_returns (returnIO x)"
  by (simp add: always_returns_def returnIO_def)

lemma always_returnsD: "always_returns m \<Longrightarrow> \<exists>x w1. m w = (Returned x, w1)"
  by (metis always_returns_def prod.collapse)

lemma ar_bindIO:
  assumes m: "always_returns m" and f: "\<And>x. always_returns (f x)"
  shows "always_returns (bindIO m f)"
  unfolding always_returns_def
proof
  fix w
  obtain x w1 where mw: "m w = (Returned x, w1)" using always_returnsD [OF m] by blast
  obtain y w2 where fw: "f x w1 = (Returned y, w2)" using always_returnsD [OF f] by blast
  have "fst (bindIO m f w) = Returned y" using mw fw by (simp add: bindIO_def)
  then show "\<exists>y. fst (bindIO m f w) = Returned y" by blast
qed

lemma ar_catchIO:
  assumes m: "always_returns m"
  shows "always_returns (catchIO m h)"
  unfolding always_returns_def
proof
  fix w
  obtain x w1 where mw: "m w = (Returned x, w1)" using always_returnsD [OF m] by blast
  have "fst (catchIO m h w) = Returned x" using mw by (simp add: catchIO_def)
  then show "\<exists>y. fst (catchIO m h w) = Returned y" by blast
qed

lemma ar_canUseSEA:
  assumes "everyToolStarts e"
  shows "always_returns (SEABuilder_canUseSEA e b v)"
  unfolding always_returns_def
proof
  fix w
  show "\<exists>x. fst (SEABuilder_canUseSEA e b v w) = Returned x"
  proof (cases "fst (SEABuilder_canUseSEA e b v w)")
    case (Returned x)
    then show ?thesis by blast
  next
    case (Thrown msg)
    then show ?thesis using canUseSEA_never_throws [of e b v w msg] by simp
  next
    case (Crashed x)
    then show ?thesis using nc_canUseSEA [OF assms, of b v] by (simp add: never_crashes_def)
  qed
qed

lemma ar_build: "everyToolStarts e \<Longrightarrow> always_returns (SEABuilder_build e b options)"
  by (simp add: always_returns_def build_returns)

lemma ar_decideBuildStrategy:
  assumes "everyToolStarts e"
  shows "always_returns (HybridBuilder_decideBuildStrategy e hb target options)"
  unfolding HybridBuilder_decideBuildStrategy_def Let_def
  by (auto intro!: ar_bindIO ar_returnIO ar_canUseSEA assms split: option.splits)

lemma ar_analyzeBuildDecisions:
  assumes "everyToolStarts e"
  shows "always_returns (HybridBuilder_analyzeBuildDecisions e hb options ts)"
  by (induction ts) (auto intro!: ar_bindIO ar_returnIO ar_decideBuildStrategy assms)

lemma ar_buildSingleTarget:
  assumes "everyToolStarts e"
  shows "always_returns (HybridBuilder_buildSingleTarget e hb decision options)"
  unfolding HybridBuilder_buildSingleTarget_def Let_def
  by (auto intro!: ar_bindIO ar_returnIO ar_build assms)

lemma ar_buildLoop:
  assumes "everyToolStarts e"
  shows "always_returns (HybridBuilder_buildLoop e hb options ds acc)"
  by (induction ds arbitrary: acc)
     (auto intro!: ar_bindIO ar_catchIO ar_returnIO ar_buildSingleTarget assms)

lemma ar_aggregate: "always_returns (aggregate e t0 acc)"
  by (simp add: always_returns_def aggregate_def Let_def)

lemma HybridBuilder_build_returns:
  assumes "everyToolStarts e"
  shows "\<exists>r. fst (HybridBuilder_build e hb options w) = Returned r"
proof -
  have "always_returns
          (bindIO (HybridBuilder_analyzeBuildDecisions e hb options (targets options))
             (\<lambda>decisions. bindIO (HybridBuilder_buildLoop e hb options decisions ([], []))
                             (aggregate e (dateNow e w))))"
    by (intro ar_bindIO ar_analyzeBuildDecisions ar_buildLoop ar_aggregate assms)
  then show ?thesis
    by (simp add: always_returns_def HybridBuilder_build_def Let_def)
qed

text \<open>
  On a host where every command can be started, the batch returns, and the aggregate is as
  described above.
\<close>

lemma HybridBuilder_build_when_tools_start:
  assumes "everyToolStarts e"
  shows "\<exists>r. fst (HybridBuilder_build e hb options w) = Returned r
             \<and> map t_target (agg_results r) = targets options
             \<and> (agg_success r \<longleftrightarrow> list_all (\<lambda>x. res_success (t_result x)) (agg_results r))
             \<and> errors_collected (agg_results r, agg_errors r)"
  using HybridBuilder_build_returns [OF assms, of hb options w]
        HybridBuilder_build_when_returned [of e hb options w]
  by blast


section \<open>Aggregation of the per-target results\<close>

text \<open>
  C1. A target's failure is meant never to end the batch, and the aggregate to hold one
  result for each requested target. Here the first of two targets is a macOS target and
  \<open>codesign\<close> cannot be started: \<open>runCommand\<close> has no listener for the \<open>error\<close> event
  of the child, so the process ends inside the first build. No aggregate is returned,
  nothing is done for the second target, and the temporary directory of the first build
  is left behind.
\<close>

theorem missing_tool_ends_the_batch:
  "fst (HybridBuilder_build noCodesign (new_HybridBuilder noCodesign)
          (hybridOptionsFor [macTarget ''node21'', linuxTarget ''node21'']) emptyWorld)
     = Crashed ''spawn codesign ENOENT''
   \<and> journal (snd (HybridBuilder_build noCodesign (new_HybridBuilder noCodesign)
          (hybridOptionsFor [macTarget ''node21'', linuxTarget ''node21'']) emptyWorld))
     = [RunCommand ''node'' [''--help''], RunCommand ''node'' [''--help''],
        RunCommand ''node'' [''--help''], Mkdir ''/work/.pkg-temp'',
        WriteFile ''/work/.pkg-temp/sea-config.json''
          \<lparr>cfg_main = ''index.js'', cfg_output = ''/work/.pkg-temp/sea-prep.blob'',
             cfg_disableExperimentalSEAWarning = Some True, cfg_useSnapshot = None,
             cfg_useCodeCache = Some True, cfg_assets = None\<rparr>,
        RunCommand ''node'' [''--experimental-sea-config'', ''/work/.pkg-temp/sea-config.json''],
        CopyFile ''/usr/bin/node'' ''/work/.pkg-temp/./app-node21-macos-arm64'',
        RunCommand ''codesign''
          [''--remove-signature'', ''/work/.pkg-temp/./app-node21-macos-arm64'']]
   \<and> ''/work/.pkg-temp'' \<in> files (snd (HybridBuilder_build noCodesign (new_HybridBuilder noCodesign)
          (hybridOptionsFor [macTarget ''node21'', linuxTarget ''node21'']) emptyWorld))"
  by (simp add: eval_defs info21)


section \<open>Cleanup of the temporary directory\<close>




section \<open>The temporary directory of the native builds\<close>






section \<open>The capability check of the native pipeline\<close>

lemma canUseSEA_false_iff:
  "fst (SEABuilder_canUseSEA e b v w) = Returned False \<longleftrightarrow>
     \<not> hasStableSEA v
     \<or> (\<exists>msg. runResult e w ''node'' [''--help''] = SpawnThrows msg)
     \<or> (\<exists>r. runResult e w ''node'' [''--help''] = Exited r
            \<and> \<not> includesStr (stdout r) ''--experimental-sea-config'')"
  by (cases "hasStableSEA v")
     (auto simp: canUseSEA_unstable canUseSEA_stable split: spawn_result.splits)

text \<open>
  C4 (as amended). The initial check of \<open>SEABuilder.build\<close> answers true exactly when the
  version has stable SEA support and \<open>node --help\<close> runs and mentions
  \<open>--experimental-sea-config\<close>; it answers false exactly when the version has no stable
  SEA support, or starting \<open>node\<close> throws, or the help text does not mention the flag. For
  a version without native support it answers false. When it answers false, \<open>build\<close>
  returns a failed result whose only error is the message of the check, and the only
  operation after the check is the removal of the temporary directory. When it answers
  true, the next operation is the creation of the temporary directory.
\<close>

theorem build_capability_gate:
  fixes e b options w
  defines "v \<equiv> sea_nodeVersion options"
  defines "chk \<equiv> SEABuilder_canUseSEA e b v w"
  defines "out \<equiv> SEABuilder_build e b options w"
  shows "(fst chk = Returned True \<longleftrightarrow>
            hasStableSEA v
            \<and> (\<exists>r. runResult e w ''node'' [''--help''] = Exited r
                   \<and> includesStr (stdout r) ''--experimental-sea-config''))
       \<and> (fst chk = Returned False \<longleftrightarrow>
            \<not> hasStableSEA v
            \<or> (\<exists>msg. runResult e w ''node'' [''--help''] = SpawnThrows msg)
            \<or> (\<exists>r. runResult e w ''node'' [''--help''] = Exited r
                   \<and> \<not> includesStr (stdout r) ''--experimental-sea-config''))
       \<and> (\<not> hasNativeSEA (getSEACapabilities v) \<longrightarrow> fst chk = Returned False)
       \<and> (fst chk = Returned False \<longrightarrow>
            (\<exists>r. fst out = Returned r \<and> \<not> res_success r \<and> res_outputPath r = []
                  \<and> res_errors r = [notSupportedMessage v])
            \<and> journal (snd out) = journal (snd chk) @ [Rm (tempDir b)])
       \<and> (fst chk = Returned True \<longrightarrow>
            (\<exists>rest. journal (snd out) = journal (snd chk) @ Mkdir (tempDir b) # rest))"
proof -
  have yes: "fst chk = Returned True \<longleftrightarrow>
            hasStableSEA v
            \<and> (\<exists>r. runResult e w ''node'' [''--help''] = Exited r
                   \<and> includesStr (stdout r) ''--experimental-sea-config'')"
    unfolding chk_def by (rule canUseSEA_true_iff)
  have no: "fst chk = Returned False \<longleftrightarrow>
            \<not> hasStableSEA v
            \<or> (\<exists>msg. runResult e w ''node'' [''--help''] = SpawnThrows msg)
            \<or> (\<exists>r. runResult e w ''node'' [''--help''] = Exited r
                   \<and> \<not> includesStr (stdout r) ''--experimental-sea-config'')"
    unfolding chk_def by (rule canUseSEA_false_iff)
  have native: "\<not> hasNativeSEA (getSEACapabilities v) \<longrightarrow> fst chk = Returned False"
    using no stable_has_native by blast
  have aborted: "(\<exists>r. fst out = Returned r \<and> \<not> res_success r \<and> res_outputPath r = []
                  \<and> res_errors r = [notSupportedMessage v])
            \<and> journal (snd out) = journal (snd chk) @ [Rm (tempDir b)]"
    if "fst chk = Returned False"
  proof -
    have "SEABuilder_canUseSEA e b (sea_nodeVersion options) w = (Returned False, snd chk)"
      using that by (simp add: chk_def v_def prod_eq_iff)
    from tryBlock_aborted [OF this]
    have "SEABuilder_tryBlock e b options (dateNow e w) w
            = (Thrown (notSupportedMessage v), snd chk)"
      by (simp add: v_def)
    from tryCatch_after_throw [OF this]
    have "SEABuilder_tryCatch e b options w =
       (Returned \<lparr> res_success = False, res_outputPath = [], res_size = 0,
                   res_buildTime = dateNow e (snd chk) - dateNow e w,
                   res_warnings = [], res_errors = [notSupportedMessage v] \<rparr>, snd chk)" .
    from build_after_return [OF this] show ?thesis
      by (simp add: out_def cleanup_journal)
  qed
  have proceeds: "\<exists>rest. journal (snd out) = journal (snd chk) @ Mkdir (tempDir b) # rest"
    if "fst chk = Returned True"
  proof -
    have "SEABuilder_canUseSEA e b (sea_nodeVersion options) w = (Returned True, snd chk)"
      using that by (simp add: chk_def v_def prod_eq_iff)
    from tryBlock_proceeds [OF this]
    have tb: "SEABuilder_tryBlock e b options (dateNow e w) w =
                SEABuilder_pipeline e b options (dateNow e w) (snd chk)" .
    obtain rest where "journal (snd (SEABuilder_pipeline e b options (dateNow e w) (snd chk)))
                         = journal (snd chk) @ Mkdir (tempDir b) # rest"
      using pipeline_starts_with_mkdir by blast
    then have tc: "journal (snd (SEABuilder_tryCatch e b options w))
                     = journal (snd chk) @ Mkdir (tempDir b) # rest"
      by (simp add: tryCatch_journal tb)
    obtain tail where "journal (snd out) = journal (snd (SEABuilder_tryCatch e b options w)) @ tail"
      using build_journal_prefix [of e b options w] by (auto simp: out_def)
    then have "journal (snd out) = journal (snd chk) @ Mkdir (tempDir b) # (rest @ tail)"
      using tc by simp
    then show ?thesis by blast
  qed
  from yes no native aborted proceeds show ?thesis by blast
qed

text \<open>
  The claim as first stated ties the check to \<open>hasNativeSEA\<close>. For \<open>node20\<close> that flag
  is true, yet \<open>build\<close> stops at the check although the help text names the flag.
\<close>

theorem unstable_native_version_aborts:
  "hasNativeSEA (getSEACapabilities ''node20'')
   \<and> fst (SEABuilder_build posixEnv (new_SEABuilder posixEnv)
            (seaOptionsFor ''node20'' ''linux'') emptyWorld)
       = Returned \<lparr>res_success = False, res_outputPath = [], res_size = 0, res_buildTime = 0,
                   res_warnings = [],
                   res_errors = [''Node.js node20 does not support SEA or SEA is not available'']\<rparr>
   \<and> journal (snd (SEABuilder_build posixEnv (new_SEABuilder posixEnv)
                            (seaOptionsFor ''node20'' ''linux'') emptyWorld))
        = [Rm ''/work/.pkg-temp'']"
  by (simp add: eval_defs info20)

text \<open>\<open>node18\<close> stops at the check; \<open>node21\<close> passes it and creates the directory.\<close>

theorem build_capability_gate_witness:
  "\<not> hasNativeSEA (getSEACapabilities ''node18'')
   \<and> fst (SEABuilder_canUseSEA posixEnv (new_SEABuilder posixEnv) ''node18'' emptyWorld)
       = Returned False
   \<and> journal (snd (SEABuilder_build posixEnv (new_SEABuilder posixEnv)
                      (seaOptionsFor ''node18'' ''linux'') emptyWorld))
        = [Rm ''/work/.pkg-temp'']
   \<and> fst (SEABuilder_canUseSEA posixEnv (new_SEABuilder posixEnv) ''node21'' emptyWorld)
       = Returned True
   \<and> (\<exists>rest. journal (snd (SEABuilder_build posixEnv (new_SEABuilder posixEnv)
                      (seaOptionsFor ''node21'' ''linux'') emptyWorld))
        = [RunCommand ''node'' [''--help''], Mkdir ''/work/.pkg-temp''] @ rest)"
proof -
  have v: "sea_nodeVersion (seaOptionsFor x y) = x" for x y
    by (simp add: seaOptionsFor_def)
  have nonnative: "\<not> hasNativeSEA (getSEACapabilities ''node18'')"
    by (simp add: getSEACapabilities_def info18)
  note gate18 = build_capability_gate [of posixEnv "new_SEABuilder posixEnv"
         "seaOptionsFor ''node18'' ''linux''" emptyWorld]
  from gate18 nonnative v
  have no18: "fst (SEABuilder_canUseSEA posixEnv (new_SEABuilder posixEnv) ''node18'' emptyWorld)
                = Returned False"
    by simp
  have j18: "journal (snd (SEABuilder_canUseSEA posixEnv (new_SEABuilder posixEnv) ''node18'' emptyWorld)) = []"
    by (simp add: eval_defs info18)
  have yes21: "fst (SEABuilder_canUseSEA posixEnv (new_SEABuilder posixEnv) ''node21'' emptyWorld)
                 = Returned True"
    and j21: "journal (snd (SEABuilder_canUseSEA posixEnv (new_SEABuilder posixEnv) ''node21'' emptyWorld))
               = [RunCommand ''node'' [''--help'']]"
    by (simp_all add: eval_defs info21)
  have dir: "tempDir (new_SEABuilder posixEnv) = ''/work/.pkg-temp''"
    by (simp add: new_SEABuilder_def posixEnv_def)
  from gate18 no18 j18 dir v
  have a: "journal (snd (SEABuilder_build posixEnv (new_SEABuilder posixEnv)
                      (seaOptionsFor ''node18'' ''linux'') emptyWorld)) = [Rm ''/work/.pkg-temp'']"
    by simp
  from build_capability_gate [of posixEnv "new_SEABuilder posixEnv"
         "seaOptionsFor ''node21'' ''linux''" emptyWorld] yes21 j21 dir v
  have b: "\<exists>rest. journal (snd (SEABuilder_build posixEnv (new_SEABuilder posixEnv)
                      (seaOptionsFor ''node21'' ''linux'') emptyWorld))
        = [RunCommand ''node'' [''--help''], Mkdir ''/work/.pkg-temp''] @ rest"
    by simp
  from nonnative no18 a yes21 b show ?thesis by blast
qed


section \<open>The decision engine\<close>

lemma strategy_crossCompile:
  "getBuildStrategy v \<lparr> so_crossCompile = Some True, so_hasComplexRequires = c, so_hasAssets = a \<rparr>
     = StrategyTraditional"
  by (simp add: getBuildStrategy_def orDefault_def Let_def)

lemma decide_returns_unless_check_crashes:
  "(\<exists>d. fst (HybridBuilder_decideBuildStrategy e hb target options w) = Returned d)
   \<or> (\<exists>x. fst (SEABuilder_canUseSEA e (seaBuilder hb) (nodeRange target) w) = Crashed x)"
proof (cases "SEABuilder_canUseSEA e (seaBuilder hb) (nodeRange target) w")
  case (Pair out w1)
  show ?thesis
  proof (cases out)
    case (Returned c)
    then show ?thesis using Pair
      by (simp add: HybridBuilder_decideBuildStrategy_def Let_def bindIO_def returnIO_def
          split: option.splits)
  next
    case (Thrown msg)
    then show ?thesis
      using Pair canUseSEA_never_throws [of e "seaBuilder hb" "nodeRange target" w msg] by simp
  next
    case (Crashed x)
    then show ?thesis using Pair by simp
  qed
qed

text \<open>
  C5 (as amended). In every decision, \<open>shouldUseSEA\<close> is true exactly when the build mode
  is \<open>sea\<close> and \<open>canUseSEA\<close> is true. When the \<open>sea\<close> mode is not forced, \<open>shouldUseSEA\<close>
  is true exactly when the build mode is \<open>sea\<close>. When \<open>sea\<close> is forced on a valid target,
  the build mode is \<open>sea\<close> and \<open>shouldUseSEA\<close> is the answer of \<open>canUseSEA\<close>. A decision
  is returned whenever the capability check returns.
\<close>

theorem shouldUseSEA_characterised:
  fixes e hb target options w
  defines "decided \<equiv> fst (HybridBuilder_decideBuildStrategy e hb target options w)"
  defines "chk \<equiv> fst (SEABuilder_canUseSEA e (seaBuilder hb) (nodeRange target) w)"
  shows "(\<forall>d. decided = Returned d \<longrightarrow>
            (d_shouldUseSEA d \<longleftrightarrow> d_buildMode d = Sea \<and> d_canUseSEA d)
            \<and> (forceBuildMode options \<noteq> Some ForceSea \<longrightarrow>
                 (d_shouldUseSEA d \<longleftrightarrow> d_buildMode d = Sea))
            \<and> (forceBuildMode options = Some ForceSea \<and> valid (validateTarget target) \<longrightarrow>
                 d_buildMode d = Sea \<and> chk = Returned (d_shouldUseSEA d)))
       \<and> ((\<exists>c. chk = Returned c) \<longrightarrow> (\<exists>d. decided = Returned d))"
proof -
  have "(d_shouldUseSEA d \<longleftrightarrow> d_buildMode d = Sea \<and> d_canUseSEA d)
            \<and> (forceBuildMode options \<noteq> Some ForceSea \<longrightarrow>
                 (d_shouldUseSEA d \<longleftrightarrow> d_buildMode d = Sea))
            \<and> (forceBuildMode options = Some ForceSea \<and> valid (validateTarget target) \<longrightarrow>
                 d_buildMode d = Sea \<and> chk = Returned (d_shouldUseSEA d))"
    if "decided = Returned d" for d
    using that unfolding decided_def chk_def
    by (cases "SEABuilder_canUseSEA e (seaBuilder hb) (nodeRange target) w")
       (auto simp: HybridBuilder_decideBuildStrategy_def decideAuto_def forcedModeOf_def Let_def
             bindIO_def returnIO_def
             split: option.splits force_mode.splits strategy.splits outcome.splits if_splits)
  moreover have "(\<exists>c. chk = Returned c) \<longrightarrow> (\<exists>d. decided = Returned d)"
    using decide_returns_unless_check_crashes [of e hb target options w]
    by (auto simp: decided_def chk_def)
  ultimately show ?thesis by blast
qed

text \<open>
  Forcing \<open>sea\<close> for \<open>node18\<close>, a valid target without SEA support: the mode is \<open>sea\<close>
  and \<open>shouldUseSEA\<close> is false.
\<close>

theorem forced_sea_without_capability:
  "fst (HybridBuilder_decideBuildStrategy posixEnv (new_HybridBuilder posixEnv)
       (linuxTarget ''node18'') (forcedSea (hybridOptionsFor [])) emptyWorld)
     = Returned \<lparr>d_target = linuxTarget ''node18'', d_buildMode = Sea,
                 d_reason = ''User forced sea mode'', d_canUseSEA = False,
                 d_shouldUseSEA = False\<rparr>"
  by (simp add: eval_defs forcedSea_def info18)

text \<open>Without a forced mode, \<open>node21\<close> is built natively and \<open>shouldUseSEA\<close> is true.\<close>

theorem shouldUseSEA_characterised_witness:
  "forceBuildMode (hybridOptionsFor []) \<noteq> Some ForceSea
   \<and> fst (SEABuilder_canUseSEA posixEnv (seaBuilder (new_HybridBuilder posixEnv))
             (nodeRange (linuxTarget ''node21'')) emptyWorld) = Returned True
   \<and> (\<exists>d. fst (HybridBuilder_decideBuildStrategy posixEnv (new_HybridBuilder posixEnv)
               (linuxTarget ''node21'') (hybridOptionsFor []) emptyWorld) = Returned d
          \<and> d_buildMode d = Sea \<and> d_shouldUseSEA d)"
proof -
  have unforced: "forceBuildMode (hybridOptionsFor []) \<noteq> Some ForceSea"
    by (simp add: hybridOptionsFor_def)
  have chk: "fst (SEABuilder_canUseSEA posixEnv (seaBuilder (new_HybridBuilder posixEnv))
             (nodeRange (linuxTarget ''node21'')) emptyWorld) = Returned True"
    by (simp add: eval_defs info21)
  have mode: "d_buildMode d = Sea"
    if "fst (HybridBuilder_decideBuildStrategy posixEnv (new_HybridBuilder posixEnv)
               (linuxTarget ''node21'') (hybridOptionsFor []) emptyWorld) = Returned d" for d
    using that by (auto simp add: eval_defs info21)
  note charac = shouldUseSEA_characterised [where options = "hybridOptionsFor []" and e = posixEnv
         and hb = "new_HybridBuilder posixEnv" and target = "linuxTarget ''node21''"
         and w = emptyWorld]
  from charac chk obtain d where
    d: "fst (HybridBuilder_decideBuildStrategy posixEnv (new_HybridBuilder posixEnv)
               (linuxTarget ''node21'') (hybridOptionsFor []) emptyWorld) = Returned d"
    by blast
  from charac d unforced mode [OF d] have "d_buildMode d = Sea \<and> d_shouldUseSEA d" by blast
  with d unforced chk show ?thesis by blast
qed

text \<open>
  C6. For every target that fails validation, the decision is the traditional mode with
  \<open>canUseSEA\<close> and \<open>shouldUseSEA\<close> false, its reason is the text of the validation failure
  after the fixed prefix \<open>Target validation failed: \<close>, and no operation is issued; this holds
  for all options, a forced \<open>sea\<close> mode included.
\<close>

theorem invalid_target_is_traditional:
  assumes "\<not> valid (validateTarget target)"
  shows "\<exists>why. reason (validateTarget target) = Some why
             \<and> HybridBuilder_decideBuildStrategy e hb target options w =
                 (Returned \<lparr> d_target = target, d_buildMode = Traditional,
                             d_reason = ''Target validation failed: '' @ why,
                             d_canUseSEA = False, d_shouldUseSEA = False \<rparr>, w)"
proof -
  from assms obtain why where "reason (validateTarget target) = Some why"
    by (auto simp: validateTarget_def Let_def split: if_splits)
  then show ?thesis using assms
    by (simp add: HybridBuilder_decideBuildStrategy_def Let_def interpolate_def returnIO_def)
qed

text \<open>\<open>node7\<close> is below the supported range; forcing \<open>sea\<close> does not change the decision.\<close>

theorem invalid_target_is_traditional_witness:
  "\<not> valid (validateTarget (linuxTarget ''node7''))
   \<and> HybridBuilder_decideBuildStrategy posixEnv (new_HybridBuilder posixEnv)
        (linuxTarget ''node7'') (forcedSea (hybridOptionsFor [])) emptyWorld =
       (Returned \<lparr> d_target = linuxTarget ''node7'', d_buildMode = Traditional,
          d_reason = ''Target validation failed: Node.js version node7 is not supported. Supported versions: 8-24'',
          d_canUseSEA = False, d_shouldUseSEA = False \<rparr>, emptyWorld)"
proof -
  have bad: "\<not> valid (validateTarget (linuxTarget ''node7''))"
    and why: "reason (validateTarget (linuxTarget ''node7''))
               = Some ''Node.js version node7 is not supported. Supported versions: 8-24''"
    using info7 by (simp_all add: validateTarget_def linuxTarget_def Let_def)
  from invalid_target_is_traditional [OF bad, where e = posixEnv
         and hb = "new_HybridBuilder posixEnv" and options = "forcedSea (hybridOptionsFor [])"
         and w = emptyWorld] why bad
  show ?thesis by auto
qed

text \<open>
  C7 (as amended). For every target, when \<open>crossCompile\<close> is true and the \<open>sea\<close> mode is
  not forced, every decision is the traditional mode, whatever the stability of the
  target's version; and a decision is returned whenever the capability check returns.
\<close>

theorem crossCompile_is_traditional_unless_sea_forced:
  assumes "crossCompile options = Some True" and "forceBuildMode options \<noteq> Some ForceSea"
  shows "(\<forall>d. fst (HybridBuilder_decideBuildStrategy e hb target options w) = Returned d \<longrightarrow>
            d_buildMode d = Traditional)
       \<and> ((\<exists>c. fst (SEABuilder_canUseSEA e (seaBuilder hb) (nodeRange target) w) = Returned c) \<longrightarrow>
            (\<exists>d. fst (HybridBuilder_decideBuildStrategy e hb target options w) = Returned d))"
proof -
  have "d_buildMode d = Traditional"
    if "fst (HybridBuilder_decideBuildStrategy e hb target options w) = Returned d" for d
    using that assms
    by (cases "SEABuilder_canUseSEA e (seaBuilder hb) (nodeRange target) w")
       (auto simp: HybridBuilder_decideBuildStrategy_def decideAuto_def forcedModeOf_def Let_def
             strategy_crossCompile bindIO_def returnIO_def
             split: option.splits force_mode.splits outcome.splits if_splits)
  moreover have "(\<exists>c. fst (SEABuilder_canUseSEA e (seaBuilder hb) (nodeRange target) w) = Returned c) \<longrightarrow>
            (\<exists>d. fst (HybridBuilder_decideBuildStrategy e hb target options w) = Returned d)"
    using decide_returns_unless_check_crashes [of e hb target options w] by auto
  ultimately show ?thesis by blast
qed

text \<open>
  With \<open>crossCompile\<close> true and the \<open>sea\<close> mode forced, the forced mode wins: the decision
  for \<open>node21\<close> is \<open>sea\<close>.
\<close>

theorem forced_sea_overrides_crossCompile:
  "crossCompile (crossCompiled (forcedSea (hybridOptionsFor []))) = Some True
   \<and> fst (HybridBuilder_decideBuildStrategy posixEnv (new_HybridBuilder posixEnv)
       (linuxTarget ''node21'') (crossCompiled (forcedSea (hybridOptionsFor []))) emptyWorld)
     = Returned \<lparr>d_target = linuxTarget ''node21'', d_buildMode = Sea,
                 d_reason = ''User forced sea mode'', d_canUseSEA = True,
                 d_shouldUseSEA = True\<rparr>"
  by (simp add: eval_defs forcedSea_def crossCompiled_def info21)

text \<open>\<open>node21\<close> has stable SEA support; with \<open>crossCompile\<close> it is built traditionally.\<close>

theorem crossCompile_is_traditional_unless_sea_forced_witness:
  "crossCompile (crossCompiled (hybridOptionsFor [])) = Some True
   \<and> forceBuildMode (crossCompiled (hybridOptionsFor [])) \<noteq> Some ForceSea
   \<and> hasStableSEA ''node21''
   \<and> fst (SEABuilder_canUseSEA posixEnv (seaBuilder (new_HybridBuilder posixEnv))
             (nodeRange (linuxTarget ''node21'')) emptyWorld) = Returned True
   \<and> (\<exists>d. fst (HybridBuilder_decideBuildStrategy posixEnv (new_HybridBuilder posixEnv)
               (linuxTarget ''node21'') (crossCompiled (hybridOptionsFor [])) emptyWorld)
            = Returned d
          \<and> d_buildMode d = Traditional)"
proof -
  have cross: "crossCompile (crossCompiled (hybridOptionsFor [])) = Some True"
    and unforced: "forceBuildMode (crossCompiled (hybridOptionsFor [])) \<noteq> Some ForceSea"
    by (simp_all add: crossCompiled_def hybridOptionsFor_def)
  have stable: "hasStableSEA ''node21''"
    by (simp add: hasStableSEA_def info21)
  have chk: "fst (SEABuilder_canUseSEA posixEnv (seaBuilder (new_HybridBuilder posixEnv))
             (nodeRange (linuxTarget ''node21'')) emptyWorld) = Returned True"
    by (simp add: eval_defs info21)
  note trad = crossCompile_is_traditional_unless_sea_forced [OF cross unforced,
         where e = posixEnv and hb = "new_HybridBuilder posixEnv"
         and target = "linuxTarget ''node21''" and w = emptyWorld]
  from trad chk
  have "\<exists>d. fst (HybridBuilder_decideBuildStrategy posixEnv (new_HybridBuilder posixEnv)
               (linuxTarget ''node21'') (crossCompiled (hybridOptionsFor [])) emptyWorld)
            = Returned d
          \<and> d_buildMode d = Traditional"
    by blast
  with cross unforced stable chk show ?thesis by blast
qed

section \<open>The configuration record of the native pipeline\<close>

lemma convertAssets_snoc:
  "convertAssetsToSEAFormat e w (xs @ [a]) =
     (if existsSync w a
      then objectSet (convertAssetsToSEAFormat e w xs) (pathRelative e (cwd e) a) a
      else convertAssetsToSEAFormat e w xs)"
  by (simp add: convertAssetsToSEAFormat_def)

lemma convertAssets_entry:
  "convertAssetsToSEAFormat e w xs k = Some a \<Longrightarrow>
     a \<in> set xs \<and> existsSync w a \<and> k = pathRelative e (cwd e) a \<and> k \<noteq> ''__proto__''"
proof (induction xs rule: rev_induct)
  case Nil
  then show ?case by (simp add: convertAssetsToSEAFormat_def)
next
  case (snoc x xs)
  then show ?case
    by (auto simp: convertAssets_snoc objectSet_def split: if_splits)
qed

lemma convertAssets_present:
  "a \<in> set xs \<Longrightarrow> existsSync w a \<Longrightarrow> pathRelative e (cwd e) a \<noteq> ''__proto__'' \<Longrightarrow>
     \<exists>a'. convertAssetsToSEAFormat e w xs (pathRelative e (cwd e) a) = Some a'"
proof (induction xs rule: rev_induct)
  case Nil
  then show ?case by simp
next
  case (snoc x xs)
  then show ?case
    by (auto simp: convertAssets_snoc objectSet_def split: if_splits)
qed

lemma convertAssets_proto: "convertAssetsToSEAFormat e w xs ''__proto__'' = None"
proof (induction xs rule: rev_induct)
  case Nil
  show ?case by (simp add: convertAssetsToSEAFormat_def)
next
  case (snoc x xs)
  then show ?case by (simp add: convertAssets_snoc objectSet_def)
qed

text \<open>
  What the record holds for every input. \<open>useSnapshot\<close> is set exactly when the caller
  asked for it and the version supports snapshots; \<open>useCodeCache\<close> is set exactly when the
  caller did not pass \<open>false\<close> and the version supports the code cache; the \<open>assets\<close>
  mapping is present exactly when assets were declared and the version supports assets.
  Every entry of the mapping leads from the project-relative key of a declared path that
  exists to that path; a declared path that exists has its key in the mapping when the
  key is not \<open>__proto__\<close>, and is itself the value when no other declared existing path
  has the same key. The key \<open>__proto__\<close> never has an entry.
\<close>

lemma sea_config_record_fields:
  fixes e b options w
  defines "caps \<equiv> getSEACapabilities (sea_nodeVersion options)"
  defines "config \<equiv> seaConfigRecord e b options w"
  shows "cfg_useSnapshot config =
           (if truthy (sea_useSnapshot options) \<and> supportsSnapshot caps then Some True else None)
       \<and> cfg_useCodeCache config =
           (if sea_useCodeCache options \<noteq> Some False \<and> supportsCodeCache caps
            then Some True else None)
       \<and> cfg_assets config =
           (case sea_assets options of
              None \<Rightarrow> None
            | Some declared \<Rightarrow>
                if supportsAssets caps then Some (convertAssetsToSEAFormat e w declared)
                else None)
       \<and> (\<forall>declared k a.
             convertAssetsToSEAFormat e w declared k = Some a \<longrightarrow>
               a \<in> set declared \<and> existsSync w a \<and> k = pathRelative e (cwd e) a)
       \<and> (\<forall>declared a.
             a \<in> set declared \<and> existsSync w a \<and> pathRelative e (cwd e) a \<noteq> ''__proto__'' \<longrightarrow>
               (\<exists>a'. convertAssetsToSEAFormat e w declared (pathRelative e (cwd e) a) = Some a'))
       \<and> (\<forall>declared a.
             a \<in> set declared \<and> existsSync w a \<and> pathRelative e (cwd e) a \<noteq> ''__proto__''
             \<and> list_all (\<lambda>a'. existsSync w a'
                                \<and> pathRelative e (cwd e) a' = pathRelative e (cwd e) a
                              \<longrightarrow> a' = a) declared \<longrightarrow>
               convertAssetsToSEAFormat e w declared (pathRelative e (cwd e) a) = Some a)
       \<and> (\<forall>declared. convertAssetsToSEAFormat e w declared ''__proto__'' = None)"
proof -
  have snapshot: "cfg_useSnapshot config =
           (if truthy (sea_useSnapshot options) \<and> supportsSnapshot caps then Some True else None)"
    by (auto simp: config_def caps_def seaConfigRecord_def Let_def split: option.splits)
  have codeCache: "cfg_useCodeCache config =
           (if sea_useCodeCache options \<noteq> Some False \<and> supportsCodeCache caps
            then Some True else None)"
    by (auto simp: config_def caps_def seaConfigRecord_def Let_def split: option.splits)
  have assetsField: "cfg_assets config =
           (case sea_assets options of
              None \<Rightarrow> None
            | Some declared \<Rightarrow>
                if supportsAssets caps then Some (convertAssetsToSEAFormat e w declared)
                else None)"
    by (auto simp: config_def caps_def seaConfigRecord_def Let_def split: option.splits)
  have entries: "a \<in> set declared \<and> existsSync w a \<and> k = pathRelative e (cwd e) a"
    if "convertAssetsToSEAFormat e w declared k = Some a" for declared k a
    using convertAssets_entry [OF that] by simp
  have present: "\<exists>a'. convertAssetsToSEAFormat e w declared (pathRelative e (cwd e) a) = Some a'"
    if "a \<in> set declared \<and> existsSync w a \<and> pathRelative e (cwd e) a \<noteq> ''__proto__''"
    for declared a
    using that convertAssets_present [of a declared w e] by simp
  have unique: "convertAssetsToSEAFormat e w declared (pathRelative e (cwd e) a) = Some a"
    if h: "a \<in> set declared \<and> existsSync w a \<and> pathRelative e (cwd e) a \<noteq> ''__proto__''
             \<and> list_all (\<lambda>a'. existsSync w a'
                                \<and> pathRelative e (cwd e) a' = pathRelative e (cwd e) a
                              \<longrightarrow> a' = a) declared" for declared a
  proof -
    from h present obtain a' where
      a': "convertAssetsToSEAFormat e w declared (pathRelative e (cwd e) a) = Some a'"
      by blast
    from entries [OF a'] h have "a' = a" by (auto simp: list_all_iff)
    with a' show ?thesis by simp
  qed
  from snapshot codeCache assetsField entries present unique convertAssets_proto
  show ?thesis by blast
qed

text \<open>
  C8. Each declared asset path that exists on disk is meant to map from its
  project-relative key. Here \<open>node21\<close> supports assets and two assets are declared, the
  files \<open>__proto__\<close> and \<open>a.txt\<close> of the working directory; both exist.
  \<open>convertAssetsToSEAFormat\<close> collects the entries in an object literal, and the assignment
  \<open>seaAssets['__proto__'] = asset\<close> of a string adds no property to it. The record that is
  written and returned maps \<open>a.txt\<close> only: the existing asset \<open>__proto__\<close> is left out,
  and the build succeeds without it.
\<close>

theorem asset_named_proto_is_left_out:
  "supportsAssets (getSEACapabilities ''node21'')
   \<and> sea_assets protoOptions = Some [''__proto__'', ''a.txt'']
   \<and> existsSync protoWorld ''__proto__''
   \<and> existsSync protoWorld ''a.txt''
   \<and> pathRelative posixEnv (cwd posixEnv) ''__proto__'' = ''__proto__''
   \<and> cfg_assets (seaConfigRecord posixEnv (new_SEABuilder posixEnv) protoOptions protoWorld)
       = Some [''a.txt'' \<mapsto> ''a.txt'']
   \<and> fst (SEABuilder_createSEAConfig posixEnv (new_SEABuilder posixEnv) protoOptions protoWorld)
       = Returned \<lparr>cfg_main = ''index.js'', cfg_output = ''/work/.pkg-temp/sea-prep.blob'',
                   cfg_disableExperimentalSEAWarning = Some True, cfg_useSnapshot = None,
                   cfg_useCodeCache = Some True, cfg_assets = Some [''a.txt'' \<mapsto> ''a.txt'']\<rparr>
   \<and> fst (SEABuilder_build posixEnv (new_SEABuilder posixEnv) protoOptions protoWorld)
       = Returned \<lparr>res_success = True, res_outputPath = ''app'', res_size = 1024,
                   res_buildTime = 8, res_warnings = [], res_errors = []\<rparr>"
  by (simp add: eval_defs info21 protoOptions_def protoWorld_def objectSet_def)


section \<open>The fallback table of the extended version resolver\<close>

lemma fallbackMap_own_entry:
  "map_of fallbackMap v = Some t \<Longrightarrow> objectGet (map_of fallbackMap) v = Some (Str t) \<and> t = ''node18''"
  by (auto simp: objectGet_def fallbackMap_def split: if_splits)

lemma extended_has_entry: "isExtendedVersion v \<Longrightarrow> map_of fallbackMap v = Some ''node18''"
  by (auto simp: isExtendedVersion_def EXTENDED_NODE_VERSIONS_def fallbackMap_def)

lemma getBinaryInfo_errors:
  "getBinaryInfo fe options = Inl err \<Longrightarrow> \<exists>msg. err = Unsupported msg"
  by (auto simp: getBinaryInfo_def Let_def split: if_splits)

text \<open>
  A request for the version \<open>constructor\<close> has no entry in the table, yet
  \<open>fallbackMap[nodeRange]\<close> finds the property that every object inherits, so the
  function does not raise its own message and calls \<open>need\<close>. This is why the statement
  below has only one direction for the no-fallback message.
\<close>

lemma inherited_property_reaches_need:
  "map_of fallbackMap ''constructor'' = None
   \<and> fallbackToClosestVersion cachedNowhere (fetchOptionsFor ''constructor'')
       = Inl (NeedFailed ''nodeRange must be a string'')"
  by (simp add: fallbackMap_def fallbackToClosestVersion_def objectGet_def objectPrototypeKeys_def
      cachedNowhere_def fetchOptionsFor_def)

text \<open>
  C9 (as amended). The fallback table has an entry exactly for the versions that the
  resolver treats as extended (\<open>node20\<close>, \<open>node21\<close>, \<open>node22\<close>). Each of them is a
  supported version outside the list of the original fetch mechanism and has exactly one
  entry, whose target \<open>node18\<close> is a supported version of that list.
  \<open>fallbackToClosestVersion\<close> fails with its no-fallback message only when the requested
  version has no entry in the table; when the version has an entry, it hands the entry's
  target to \<open>need\<close>. \<open>fetch\<close> rejects a version that is not extended before it consults
  the table, so \<open>fetch\<close> never fails with the no-fallback message.
\<close>

theorem fallback_table_matches_extended_versions:
  "(\<forall>v. isExtendedVersion v \<longleftrightarrow> v \<in> set (map fst fallbackMap))
   \<and> (\<forall>v. isExtendedVersion v \<longrightarrow>
          length (filter (\<lambda>entry. fst entry = v) fallbackMap) = 1
          \<and> map_of fallbackMap v = Some ''node18''
          \<and> isSupported (getNodeVersionInfo v) \<and> v \<notin> set originalVersions)
   \<and> isSupported (getNodeVersionInfo ''node18'') \<and> ''node18'' \<in> set originalVersions
   \<and> (\<forall>x. fallbackToClosestVersion fe options = Inl (FallbackExhausted x) \<longrightarrow>
          map_of fallbackMap (f_nodeRange options) = None
          \<and> x = noFallbackMessage (f_nodeRange options))
   \<and> (\<forall>t. map_of fallbackMap (f_nodeRange options) = Some t \<longrightarrow>
          fallbackToClosestVersion fe options =
            (case need fe (Str t) (f_platform options) (f_arch options) of
               Inl msg \<Rightarrow> Inl (NeedFailed msg)
             | Inr path \<Rightarrow> Inr path))
   \<and> fetch fe options =
       (case getBinaryInfo fe options of
          Inl err \<Rightarrow> Inl err
        | Inr binaryInfo \<Rightarrow>
            if accessible fe (b_localPath binaryInfo) then Inr (b_localPath binaryInfo)
            else (case need fe (Str ''node18'') (f_platform options) (f_arch options) of
                    Inl msg \<Rightarrow> Inl (NeedFailed msg)
                  | Inr path \<Rightarrow> Inr path))
   \<and> (\<forall>x. fetch fe options \<noteq> Inl (FallbackExhausted x))"
proof -
  have keys: "isExtendedVersion v \<longleftrightarrow> v \<in> set (map fst fallbackMap)" for v
    by (simp add: isExtendedVersion_def EXTENDED_NODE_VERSIONS_def fallbackMap_def)
  have cases: "v = ''node20'' \<or> v = ''node21'' \<or> v = ''node22''" if "isExtendedVersion v" for v
    using that by (simp add: isExtendedVersion_def EXTENDED_NODE_VERSIONS_def)
  have entry: "length (filter (\<lambda>entry. fst entry = v) fallbackMap) = 1
          \<and> map_of fallbackMap v = Some ''node18''
          \<and> isSupported (getNodeVersionInfo v) \<and> v \<notin> set originalVersions"
    if "isExtendedVersion v" for v
    using cases [OF that]
    by (auto simp: fallbackMap_def originalVersions_def info20 info21 info22)
  have target: "isSupported (getNodeVersionInfo ''node18'')" "''node18'' \<in> set originalVersions"
    by (simp_all add: info18 originalVersions_def)
  have handed: "fallbackToClosestVersion fe options =
            (case need fe (Str t) (f_platform options) (f_arch options) of
               Inl msg \<Rightarrow> Inl (NeedFailed msg)
             | Inr path \<Rightarrow> Inr path)"
    if "map_of fallbackMap (f_nodeRange options) = Some t" for t
    using fallbackMap_own_entry [OF that]
    by (simp add: fallbackToClosestVersion_def)
  have exhausted: "map_of fallbackMap (f_nodeRange options) = None
          \<and> x = noFallbackMessage (f_nodeRange options)"
    if h: "fallbackToClosestVersion fe options = Inl (FallbackExhausted x)" for x
  proof (cases "map_of fallbackMap (f_nodeRange options)")
    case None
    then show ?thesis using h
      by (auto simp: fallbackToClosestVersion_def split: option.splits if_splits sum.splits)
  next
    case (Some t)
    then show ?thesis using h handed [OF Some]
      by (auto split: sum.splits)
  qed
  have ft: "fetch fe options =
       (case getBinaryInfo fe options of
          Inl err \<Rightarrow> Inl err
        | Inr binaryInfo \<Rightarrow>
            if accessible fe (b_localPath binaryInfo) then Inr (b_localPath binaryInfo)
            else (case need fe (Str ''node18'') (f_platform options) (f_arch options) of
                    Inl msg \<Rightarrow> Inl (NeedFailed msg)
                  | Inr path \<Rightarrow> Inr path))"
  proof (cases "getBinaryInfo fe options")
    case (Inl err)
    then show ?thesis by (simp add: fetch_def)
  next
    case (Inr binaryInfo)
    then have "isExtendedVersion (f_nodeRange options)"
      by (auto simp: getBinaryInfo_def split: if_splits)
    then have "map_of fallbackMap (f_nodeRange options) = Some ''node18''"
      by (rule extended_has_entry)
    from handed [OF this] show ?thesis using Inr
      by (simp add: fetch_def downloadOfficialBinary_def)
  qed
  have never: "fetch fe options \<noteq> Inl (FallbackExhausted x)" for x
  proof (cases "getBinaryInfo fe options")
    case (Inl err)
    then show ?thesis using getBinaryInfo_errors [OF Inl] by (auto simp: ft)
  next
    case (Inr binaryInfo)
    then show ?thesis by (auto simp: ft split: sum.splits)
  qed
  from keys entry target exhausted handed ft never show ?thesis by blast
qed

text \<open>
  \<open>node23\<close> is flagged as supported and is outside the original list, but the fallback
  table has no entry for it.
\<close>

theorem supported_version_without_fallback:
  "isSupported (getNodeVersionInfo ''node23'')
   \<and> ''node23'' \<notin> set originalVersions
   \<and> filter (\<lambda>entry. fst entry = ''node23'') fallbackMap = []
   \<and> fallbackToClosestVersion cachedNowhere (fetchOptionsFor ''node23'')
       = Inl (FallbackExhausted ''No fallback version available for node23'')
   \<and> fetch cachedNowhere (fetchOptionsFor ''node23'')
       = Inl (Unsupported ''Node.js version node23 is not supported by extended pkg-fetch'')"
  by (simp add: info23 originalVersions_def fallbackMap_def fallbackToClosestVersion_def
      noFallbackMessage_def fetchOptionsFor_def fetch_def getBinaryInfo_def isExtendedVersion_def
      EXTENDED_NODE_VERSIONS_def objectGet_def objectPrototypeKeys_def)

text \<open>With nothing cached, \<open>node20\<close> is fetched as \<open>node18\<close>.\<close>

theorem fallback_table_matches_extended_versions_witness:
  "isExtendedVersion ''node20''
   \<and> map_of fallbackMap ''node20'' = Some ''node18''
   \<and> fallbackToClosestVersion cachedNowhere (fetchOptionsFor ''node20'')
       = Inr ''/cache/fetched-node18-linux-x64''
   \<and> fetch cachedNowhere (fetchOptionsFor ''node20'') = Inr ''/cache/fetched-node18-linux-x64''"
proof -
  have ext: "isExtendedVersion ''node20''"
    by (simp add: isExtendedVersion_def EXTENDED_NODE_VERSIONS_def)
  have info: "\<exists>i. getBinaryInfo cachedNowhere (fetchOptionsFor ''node20'') = Inr i"
    by (simp add: getBinaryInfo_def isExtendedVersion_def EXTENDED_NODE_VERSIONS_def
        fetchOptionsFor_def SUPPORTED_PLATFORMS_def SUPPORTED_ARCHITECTURES_def Let_def)
  have env: "accessible cachedNowhere p = False"
     "need cachedNowhere (Str v) pl a = Inr (''/cache/fetched-'' @ v @ ''-'' @ pl @ ''-'' @ a)"
    for p v pl a
    by (simp_all add: cachedNowhere_def)
  have opts: "f_nodeRange (fetchOptionsFor v) = v" "f_platform (fetchOptionsFor v) = ''linux''"
    "f_arch (fetchOptionsFor v) = ''x64''" for v
    by (simp_all add: fetchOptionsFor_def)
  note table = fallback_table_matches_extended_versions
                 [of cachedNowhere "fetchOptionsFor ''node20''"]
  from table ext have entry: "map_of fallbackMap ''node20'' = Some ''node18''" by blast
  from table entry
  have "fallbackToClosestVersion cachedNowhere (fetchOptionsFor ''node20'') =
            (case need cachedNowhere (Str ''node18'') (f_platform (fetchOptionsFor ''node20''))
                    (f_arch (fetchOptionsFor ''node20'')) of
               Inl msg \<Rightarrow> Inl (NeedFailed msg)
             | Inr path \<Rightarrow> Inr path)"
    by (simp add: opts)
  then have fb: "fallbackToClosestVersion cachedNowhere (fetchOptionsFor ''node20'')
       = Inr ''/cache/fetched-node18-linux-x64''"
    by (simp add: env opts)
  from table info env
  have ft: "fetch cachedNowhere (fetchOptionsFor ''node20'') = Inr ''/cache/fetched-node18-linux-x64''"
    by (auto simp: opts)
  from ext entry fb ft show ?thesis by blast
qed

section \<open>The sentinel tag \<open>latest\<close>\<close>

lemma parseInt10_latest: "parseInt10 ''latest'' = None"
  by (simp add: parseInt10_def Let_def isWhiteSpace_def isDigit_def)

lemma latest_info_unsupported: "\<not> isSupported (getNodeVersionInfo ''latest'')"
  by (simp add: getNodeVersionInfo_def Let_def startsWith_def parseInt10_latest numGe_def)

text \<open>
  C10. The range validator accepts the sentinel tag \<open>latest\<close>, but the version information
  computed for it has \<open>isSupported = False\<close>, because the text after the prefix \<open>node\<close>
  parses to \<open>NaN\<close>; so \<open>validateTarget\<close> rejects every target whose \<open>nodeRange\<close> is
  \<open>latest\<close>, whatever its platform and architecture.
\<close>

theorem latest_accepted_by_range_check_but_rejected_by_validateTarget:
  "enhancedIsValidNodeRange ''latest''
   \<and> parseInt10 (replaceFirst ''node'' '''' (version (getNodeVersionInfo ''latest''))) = None
   \<and> \<not> isSupported (getNodeVersionInfo ''latest'')
   \<and> (\<forall>p a. \<not> valid (validateTarget \<lparr> nodeRange = ''latest'', platform = p, arch = a \<rparr>))"
proof -
  have range_ok: "enhancedIsValidNodeRange ''latest''"
    by (simp add: enhancedIsValidNodeRange_def)
  have nan: "parseInt10 (replaceFirst ''node'' '''' (version (getNodeVersionInfo ''latest''))) = None"
    by (simp add: getNodeVersionInfo_def Let_def startsWith_def parseInt10_latest)
  have rejected: "\<not> valid (validateTarget \<lparr> nodeRange = ''latest'', platform = p, arch = a \<rparr>)" for p a
    using latest_info_unsupported by (simp add: validateTarget_def Let_def)
  from range_ok nan latest_info_unsupported rejected show ?thesis by blast
qed

end

